theory Spec2Isabelle
  imports Complex_Main
begin

section \<open>JavaScript values used by the server\<close>

text \<open>
  A JavaScript number is modelled by an exact rational, with \<open>NaN\<close> added where the
  code can produce it (arithmetic on \<open>undefined\<close>). Rounding errors of binary floating
  point and numeric overflow are outside this model.
\<close>

datatype jsnum = Num rat | NaN

text \<open>A property that the code reads and uses in arithmetic: absent, \<open>null\<close> or a number.\<close>

datatype jsfield = Undefined | Null | Number rat

fun ToNumber :: "jsfield \<Rightarrow> jsnum" where
  "ToNumber Undefined = NaN"
| "ToNumber Null = Num 0"
| "ToNumber (Number x) = Num x"

fun js_times :: "jsnum \<Rightarrow> jsnum \<Rightarrow> jsnum" where
  "js_times (Num a) (Num b) = Num (a * b)"
| "js_times _ _ = NaN"

fun js_plus :: "jsnum \<Rightarrow> jsnum \<Rightarrow> jsnum" where
  "js_plus (Num a) (Num b) = Num (a + b)"
| "js_plus _ _ = NaN"

text \<open>\<open>x / c\<close> for a literal \<open>c\<close> other than zero (the code divides by 1000 and by 100).\<close>

fun js_over :: "jsnum \<Rightarrow> rat \<Rightarrow> jsnum" where
  "js_over (Num a) c = Num (a / c)"
| "js_over NaN c = NaN"

text \<open>\<open>Math.round\<close>: the nearest integer, a tie going towards plus infinity.\<close>

fun Math_round :: "jsnum \<Rightarrow> jsnum" where
  "Math_round (Num a) = Num (of_int \<lfloor>a + 1 / 2\<rfloor>)"
| "Math_round NaN = NaN"

text \<open>\<open>a || b\<close> on an optional number: absent and zero are falsy.\<close>

fun num_or :: "rat option \<Rightarrow> rat \<Rightarrow> rat" where
  "num_or None d = d"
| "num_or (Some x) d = (if x = 0 then d else x)"

text \<open>Truthiness of an optional string (absent and the empty string are falsy) and of an
  optional boolean.\<close>

fun truthy_str :: "string option \<Rightarrow> bool" where
  "truthy_str None = False"
| "truthy_str (Some s) = (s \<noteq> [])"

fun truthy_bool :: "bool option \<Rightarrow> bool" where
  "truthy_bool None = False"
| "truthy_bool (Some b) = b"

text \<open>\<open>Array.prototype.join\<close> on strings.\<close>

fun join :: "string \<Rightarrow> string list \<Rightarrow> string" where
  "join sep [] = []"
| "join sep [x] = x"
| "join sep (x # y # ys) = x @ sep @ join sep (y # ys)"

text \<open>\<open>String.prototype.toLowerCase\<close> on ASCII letters, and \<open>String.prototype.includes\<close>.\<close>

definition lower_char :: "char \<Rightarrow> char" where
  "lower_char c =
     (if of_char c \<ge> (65::nat) \<and> of_char c \<le> (90::nat)
      then char_of (of_char c + (32::nat)) else c)"

definition toLowerCase :: "string \<Rightarrow> string" where
  "toLowerCase s = map lower_char s"

fun starts_with :: "string \<Rightarrow> string \<Rightarrow> bool" where
  "starts_with [] s = True"
| "starts_with (p # ps) [] = False"
| "starts_with (p # ps) (c # cs) = (p = c \<and> starts_with ps cs)"

fun str_includes :: "string \<Rightarrow> string \<Rightarrow> bool" where
  "str_includes [] p = (p = [])"
| "str_includes (c # cs) p = (starts_with p (c # cs) \<or> str_includes cs p)"

text \<open>
  \<open>s.replace(/<[^>]*>/g, '')\<close>: at a \<open><\<close> that is followed somewhere by a \<open>>\<close>,
  everything up to and including the first such \<open>>\<close> is dropped; a \<open><\<close> with no
  \<open>>\<close> after it stays.
\<close>

function strip_tags :: "string \<Rightarrow> string" where
  "strip_tags [] = []"
| "strip_tags (c # cs) =
     (if c = CHR ''<'' \<and> CHR ''>'' \<in> set cs
      then strip_tags (tl (dropWhile (\<lambda>x. x \<noteq> CHR ''>'') cs))
      else c # strip_tags cs)"
  by pat_completeness auto
termination
proof (relation "measure length")
  show "wf (measure length)" by simp
next
  fix c :: char and cs :: string
  have "length (tl (dropWhile (\<lambda>x. x \<noteq> CHR ''>'') cs)) \<le> length cs"
    using length_dropWhile_le [of "\<lambda>x. x \<noteq> CHR ''>''" cs] by simp
  then show "(tl (dropWhile (\<lambda>x. x \<noteq> CHR ''>'') cs), c # cs) \<in> measure length"
    by simp
next
  fix c :: char and cs :: string
  show "(cs, c # cs) \<in> measure length" by simp
qed

text \<open>The message of the \<open>TypeError\<close> raised by reading a property of \<open>undefined\<close>, and
  by destructuring \<open>undefined\<close> (as Node.js words them).\<close>

definition undefined_read :: "string \<Rightarrow> string" where
  "undefined_read prop =
     ''Cannot read properties of undefined (reading '' @ [CHR 0x27] @ prop @ [CHR 0x27] @ '')''"

definition undefined_destructure :: "string \<Rightarrow> string \<Rightarrow> string" where
  "undefined_destructure prop var =
     ''Cannot destructure property '' @ [CHR 0x27] @ prop @ [CHR 0x27] @ '' of ''
       @ [CHR 0x27] @ var @ [CHR 0x27] @ '' as it is undefined.''"

text \<open>\<open>xs.reduce(f)\<close> with no initial value: the first element seeds the fold, and an
  empty array raises.\<close>

fun reduce :: "('a \<Rightarrow> 'a \<Rightarrow> 'a) \<Rightarrow> 'a list \<Rightarrow> string + 'a" where
  "reduce f [] = Inl ''Reduce of empty array with no initial value''"
| "reduce f (x # xs) = Inr (foldl f x xs)"

section \<open>Data model\<close>

subsection \<open>The provider's directions service\<close>

text \<open>
  The raw response of the directions service, with the fields the adapter reads. A route
  may come without legs and without a \<open>warnings\<close> array, a leg without
  \<open>duration_in_traffic\<close>, a step without \<open>maneuver\<close>.
\<close>

record raw_step =
  html_instructions :: string
  step_distance_text :: string
  step_duration_text :: string
  step_maneuver :: "string option"

record raw_leg =
  leg_distance :: rat
  leg_duration :: rat
  leg_duration_in_traffic :: "rat option"
  leg_steps :: "raw_step list"

type_synonym bounds = "(rat \<times> rat) \<times> (rat \<times> rat)"

record raw_route =
  raw_summary :: string
  raw_legs :: "raw_leg list"
  raw_polyline :: string
  raw_warnings :: "string list option"
  raw_bounds :: bounds
  raw_copyrights :: string

text \<open>\<open>response.data.routes\<close>.\<close>

type_synonym response = "raw_route list"

text \<open>The \<open>departure_time\<close> of a query: the string \<open>now\<close>, \<open>new Date(s)\<close> for a
  string, or \<open>new Date(ms)\<close> for an instant in milliseconds.\<close>

datatype departure = DepNow | DepDate string | DepAt int

text \<open>The \<open>params\<close> object of one directions query; \<open>None\<close> is \<open>undefined\<close> or a key
  that the query does not have.\<close>

record dparams =
  p_origin :: "string option"
  p_destination :: "string option"
  p_waypoints :: "string option"
  p_key :: string
  p_mode :: string
  p_departure_time :: departure
  p_traffic_model :: string
  p_avoid :: "string option"
  p_alternatives :: "bool option"
  p_units :: string

subsection \<open>Normalized routes\<close>

record step =
  instruction :: string
  step_distance :: string
  step_duration :: string
  maneuver :: "string option"

record toll_info =
  hasTolls :: bool
  toll_warnings :: "string list"
  estimatedCost :: jsfield

record route =
  summary :: string
  distance :: rat
  duration :: rat
  durationInTraffic :: rat
  polyline :: string
  steps :: "step list"
  warnings :: "string list"
  tollInfo :: toll_info
  route_bounds :: bounds
  copyrights :: string

subsection \<open>Configuration and environment\<close>

text \<open>\<open>config.costs\<close> of the configuration file.\<close>

record costs_config =
  fuelPricePerLiter :: rat
  vehicleFuelEfficiency :: rat
  tollEstimatePerKm :: rat

text \<open>
  What a call depends on besides its arguments: the API key, the directions service (a
  failed query is \<open>Inl\<close> of the error's message), the cost defaults, the reading of
  \<open>Date.now()\<close> in the sampling iteration of a given offset, and the time stamp put in
  a result's metadata.
\<close>

record env =
  apiKey :: string
  directions :: "dparams \<Rightarrow> string + response"
  costs :: costs_config
  Date_now :: "nat \<Rightarrow> int"
  timestamp :: string

text \<open>What a call does besides returning: the directions queries it issues and the
  warnings it logs, in order.\<close>

datatype event = Query dparams | Warn string string

section \<open>Provider adapter (google-maps.js)\<close>

text \<open>
  The options that \<open>calculateRoute\<close> reads from the rest of its parameter object. The
  handlers spread a caller's options object into the parameters; an options object is
  taken to hold these keys only, so it does not replace the origin, the destination, the
  waypoints or the \<open>alternatives\<close> flag.
\<close>

record route_options =
  avoidTolls :: "bool option"
  avoidHighways :: "bool option"
  avoidFerries :: "bool option"
  departureTime :: "string option"
  trafficModel :: "string option"

record route_params =
  rp_origin :: "string option"
  rp_destination :: "string option"
  rp_waypoints :: "string list option"
  rp_alternatives :: "bool option"
  rp_options :: route_options

definition no_options :: route_options where
  "no_options = \<lparr>avoidTolls = None, avoidHighways = None, avoidFerries = None,
     departureTime = None, trafficModel = None\<rparr>"

definition buildAvoidString :: "route_options \<Rightarrow> string option" where
  "buildAvoidString options =
     (let avoid = (if truthy_bool (avoidTolls options) then [''tolls''] else [])
                @ (if truthy_bool (avoidHighways options) then [''highways''] else [])
                @ (if truthy_bool (avoidFerries options) then [''ferries''] else [])
      in if length avoid > 0 then Some (join ''|'' avoid) else None)"

definition extractTollInfo :: "raw_route \<Rightarrow> toll_info" where
  "extractTollInfo r =
     (let tollWarnings =
        (case raw_warnings r of
           None \<Rightarrow> []
         | Some ws \<Rightarrow> filter (\<lambda>warning. str_includes (toLowerCase warning) ''toll'') ws)
      in \<lparr>hasTolls = length tollWarnings > 0, toll_warnings = tollWarnings,
           estimatedCost = Null\<rparr>)"

text \<open>\<open>route.legs[0]\<close> is \<open>undefined\<close> for a route without legs, and reading
  \<open>leg.distance\<close> then raises.\<close>

definition formatRouteResponse :: "raw_route \<Rightarrow> string + route" where
  "formatRouteResponse r =
     (case raw_legs r of
        [] \<Rightarrow> Inl (undefined_read ''distance'')
      | leg # _ \<Rightarrow> Inr
          \<lparr>summary = raw_summary r,
           distance = leg_distance leg,
           duration = leg_duration leg,
           durationInTraffic =
             (case leg_duration_in_traffic leg of Some v \<Rightarrow> v | None \<Rightarrow> leg_duration leg),
           polyline = raw_polyline r,
           steps = map (\<lambda>s. \<lparr>instruction = strip_tags (html_instructions s),
                               step_distance = step_distance_text s,
                               step_duration = step_duration_text s,
                               maneuver = step_maneuver s\<rparr>) (leg_steps leg),
           warnings = (case raw_warnings r of Some ws \<Rightarrow> ws | None \<Rightarrow> []),
           tollInfo = extractTollInfo r,
           route_bounds = raw_bounds r,
           copyrights = raw_copyrights r\<rparr>)"

text \<open>The directions query that \<open>calculateRoute\<close> builds from its parameters.\<close>

definition route_query :: "env \<Rightarrow> route_params \<Rightarrow> dparams" where
  "route_query e params =
     (let waypoints = (case rp_waypoints params of None \<Rightarrow> [] | Some ws \<Rightarrow> ws);
          alternatives = (case rp_alternatives params of None \<Rightarrow> False | Some a \<Rightarrow> a);
          options = rp_options params
      in \<lparr>p_origin = rp_origin params,
          p_destination = rp_destination params,
          p_waypoints = (if length waypoints > 0 then Some (join ''|'' waypoints) else None),
          p_key = apiKey e,
          p_mode = ''driving'',
          p_departure_time =
            (if truthy_str (departureTime options)
             then DepDate (the (departureTime options)) else DepNow),
          p_traffic_model =
            (if truthy_str (trafficModel options)
             then the (trafficModel options) else ''best_guess''),
          p_avoid = buildAvoidString options,
          p_alternatives = Some alternatives,
          p_units = ''metric''\<rparr>)"

text \<open>The body of the \<open>try\<close> block of \<open>calculateRoute\<close>, after the query has returned.\<close>

definition calculateRoute_try :: "string + response \<Rightarrow> string + route" where
  "calculateRoute_try answer =
     (case answer of
        Inl msg \<Rightarrow> Inl msg
      | Inr routes \<Rightarrow>
          (case routes of
             [] \<Rightarrow> Inl ''No route found''
           | r # _ \<Rightarrow> formatRouteResponse r))"

text \<open>\<open>calculateRoute\<close>: one query; whatever the \<open>try\<close> block raises is raised again
  with the adapter's prefix.\<close>

definition calculateRoute :: "env \<Rightarrow> route_params \<Rightarrow> event list \<times> (string + route)" where
  "calculateRoute e params =
     (let q = route_query e params
      in ([Query q],
          case calculateRoute_try (directions e q) of
            Inl msg \<Rightarrow> Inl (''Google Maps API error: '' @ msg)
          | Inr r \<Rightarrow> Inr r))"

subsection \<open>Traffic sampling\<close>

text \<open>Decimal digits of a natural number, for the keys \<open>+30min\<close>, \<open>+60min\<close>, \<open>+120min\<close>.\<close>

fun digits :: "nat \<Rightarrow> string" where
  "digits n =
     (if n < 10 then [char_of (48 + n)]
      else digits (n div 10) @ [char_of (48 + n mod 10)])"

declare digits.simps [simp del]

text \<open>\<open>+${offset/60}min\<close>; the offsets of the source are multiples of 60.\<close>

definition offset_label :: "nat \<Rightarrow> string" where
  "offset_label offset = ''+'' @ digits (offset div 60) @ ''min''"

text \<open>One entry of the sampled times. The instant of departure is kept in milliseconds;
  the source renders it with \<open>toISOString\<close>.\<close>

record alt_time =
  alt_duration :: rat
  alt_departureTime :: int

definition sample_query :: "env \<Rightarrow> string option \<Rightarrow> string option \<Rightarrow> nat \<Rightarrow> dparams" where
  "sample_query e origin destination offset =
     \<lparr>p_origin = origin,
      p_destination = destination,
      p_waypoints = None,
      p_key = apiKey e,
      p_mode = ''driving'',
      p_departure_time = DepAt (Date_now e offset + int offset * 1000),
      p_traffic_model = ''best_guess'',
      p_avoid = None,
      p_alternatives = None,
      p_units = ''metric''\<rparr>"

text \<open>
  The body of the \<open>try\<close> block of one sampling iteration, after the query has returned:
  \<open>routes[0].legs[0].duration_in_traffic?.value || routes[0].legs[0].duration.value\<close>.
  A traffic duration of zero is falsy and gives way to the plain duration.
\<close>

definition sample_try :: "string + response \<Rightarrow> string + rat" where
  "sample_try answer =
     (case answer of
        Inl msg \<Rightarrow> Inl msg
      | Inr routes \<Rightarrow>
          (case routes of
             [] \<Rightarrow> Inl (undefined_read ''legs'')
           | r # _ \<Rightarrow>
               (case raw_legs r of
                  [] \<Rightarrow> Inl (undefined_read ''duration_in_traffic'')
                | leg # _ \<Rightarrow>
                    Inr (case leg_duration_in_traffic leg of
                           None \<Rightarrow> leg_duration leg
                         | Some v \<Rightarrow> if v = 0 then leg_duration leg else v))))"

text \<open>The loop of \<open>getAlternativeTimes\<close> over the offsets: a failed iteration logs a
  warning and adds no entry.\<close>

fun sample_loop ::
  "env \<Rightarrow> string option \<Rightarrow> string option \<Rightarrow> nat list
     \<Rightarrow> event list \<times> (string \<times> alt_time) list" where
  "sample_loop e origin destination [] = ([], [])"
| "sample_loop e origin destination (offset # rest) =
     (let q = sample_query e origin destination offset;
          (evs, results) = sample_loop e origin destination rest
      in case sample_try (directions e q) of
           Inl msg \<Rightarrow>
             (Query q
                # Warn (''Failed to get alternative time for '' @ offset_label offset @ '':'') msg
                # evs,
              results)
         | Inr d \<Rightarrow>
             (Query q # evs,
              (offset_label offset,
               \<lparr>alt_duration = d,
                alt_departureTime = Date_now e offset + int offset * 1000\<rparr>) # results))"

definition timeOffsets :: "nat list" where
  "timeOffsets = [1800, 3600, 7200]"

definition getAlternativeTimes ::
  "env \<Rightarrow> string option \<Rightarrow> string option \<Rightarrow> event list \<times> (string \<times> alt_time) list" where
  "getAlternativeTimes e origin destination = sample_loop e origin destination timeOffsets"

record traffic_params =
  tp_origin :: "string option"
  tp_destination :: "string option"
  tp_departureTime :: "string option"

record traffic_data =
  td_duration :: rat
  td_durationInTraffic :: rat
  td_route :: route
  td_alternativeTimes :: "(string \<times> alt_time) list"

definition traffic_query :: "env \<Rightarrow> traffic_params \<Rightarrow> dparams" where
  "traffic_query e params =
     (let departureTime = (case tp_departureTime params of None \<Rightarrow> ''now'' | Some s \<Rightarrow> s)
      in \<lparr>p_origin = tp_origin params,
          p_destination = tp_destination params,
          p_waypoints = None,
          p_key = apiKey e,
          p_mode = ''driving'',
          p_departure_time = (if departureTime = ''now'' then DepNow else DepDate departureTime),
          p_traffic_model = ''best_guess'',
          p_avoid = None,
          p_alternatives = None,
          p_units = ''metric''\<rparr>)"

text \<open>
  The body of the \<open>try\<close> block of \<open>getTrafficInfo\<close>, after the primary query has
  returned. With no route, \<open>route.legs\<close> raises before any sample is taken; with a route
  that has no legs, the samples are taken and \<open>leg.duration\<close> raises afterwards.
\<close>

definition getTrafficInfo_try ::
  "env \<Rightarrow> traffic_params \<Rightarrow> string + response \<Rightarrow> event list \<times> (string + traffic_data)" where
  "getTrafficInfo_try e params answer =
     (case answer of
        Inl msg \<Rightarrow> ([], Inl msg)
      | Inr routes \<Rightarrow>
          (case routes of
             [] \<Rightarrow> ([], Inl (undefined_read ''legs''))
           | r # _ \<Rightarrow>
               (let (evs, alternativeTimes) =
                      getAlternativeTimes e (tp_origin params) (tp_destination params)
                in (evs,
                    case raw_legs r of
                      [] \<Rightarrow> Inl (undefined_read ''duration'')
                    | leg # _ \<Rightarrow>
                        (case formatRouteResponse r of
                           Inl msg \<Rightarrow> Inl msg
                         | Inr nr \<Rightarrow> Inr
                             \<lparr>td_duration = leg_duration leg,
                              td_durationInTraffic =
                                (case leg_duration_in_traffic leg of
                                   Some v \<Rightarrow> v | None \<Rightarrow> leg_duration leg),
                              td_route = nr,
                              td_alternativeTimes = alternativeTimes\<rparr>)))))"

definition getTrafficInfo ::
  "env \<Rightarrow> traffic_params \<Rightarrow> event list \<times> (string + traffic_data)" where
  "getTrafficInfo e params =
     (let q = traffic_query e params;
          (evs, r) = getTrafficInfo_try e params (directions e q)
      in (Query q # evs,
          case r of
            Inl msg \<Rightarrow> Inl (''Traffic info error: '' @ msg)
          | Inr td \<Rightarrow> Inr td))"

section \<open>Helper functions of the server (index.js)\<close>

text \<open>
  \<open>getTrafficCondition\<close>. For a duration of zero the quotient is not a rational:
  \<open>-Infinity\<close> for a negative delay, which is below every threshold, and \<open>NaN\<close> or
  \<open>Infinity\<close> otherwise, for which every comparison is false.
\<close>

definition getTrafficCondition :: "traffic_data \<Rightarrow> string" where
  "getTrafficCondition trafficData =
     (let delay = td_durationInTraffic trafficData - td_duration trafficData
      in if td_duration trafficData = 0
         then (if delay < 0 then ''light'' else ''severe'')
         else (let delayRatio = delay / td_duration trafficData
               in if delayRatio < 1 / 10 then ''light''
                  else if delayRatio < 3 / 10 then ''moderate''
                  else if delayRatio < 5 / 10 then ''heavy''
                  else ''severe''))"

record recommendation =
  recommended :: route
  reason :: string

definition findBestRoute :: "route list \<Rightarrow> string + recommendation" where
  "findBestRoute routes =
     (case reduce (\<lambda>best current.
                     if durationInTraffic current < durationInTraffic best then current else best)
                  routes of
        Inl msg \<Rightarrow> Inl msg
      | Inr fastest \<Rightarrow> Inr
          \<lparr>recommended = fastest,
           reason = ''Fastest travel time with current traffic conditions''\<rparr>)"

text \<open>
  The route object that the cost estimate is computed from, with the properties that the
  code reads: either the caller's \<open>route\<close> argument, where any of them may be missing,
  or a route from the adapter.
\<close>

record route_data =
  rd_distance :: jsfield
  rd_duration :: jsfield
  rd_tollInfo :: "toll_info option"

definition route_data_of :: "route \<Rightarrow> route_data" where
  "route_data_of r =
     \<lparr>rd_distance = Number (distance r), rd_duration = Number (duration r),
      rd_tollInfo = Some (tollInfo r)\<rparr>"

record vehicle_options =
  fuelEfficiency :: "rat option"
  fuelPrice :: "rat option"

text \<open>The breakdown and the assumptions hold the numbers that the source prints into
  strings (\<open>toFixed(1)\<close> and a unit).\<close>

record breakdown =
  bd_distance :: jsnum
  bd_fuelNeeded :: jsnum
  bd_fuelEfficiency :: rat
  bd_fuelPrice :: rat

record assumptions =
  as_fuelEfficiency :: rat
  as_fuelPrice :: rat
  as_tollEstimate :: string

record trip_costs =
  fuelCost :: jsnum
  tollCost :: jsnum
  totalCost :: jsnum
  costs_breakdown :: breakdown
  costs_assumptions :: assumptions

definition calculateTripCosts :: "costs_config \<Rightarrow> route_data \<Rightarrow> vehicle_options \<Rightarrow> trip_costs" where
  "calculateTripCosts cfg r vehicleOptions =
     (let fuelEfficiency = num_or (fuelEfficiency vehicleOptions) (vehicleFuelEfficiency cfg);
          fuelPrice = num_or (fuelPrice vehicleOptions) (fuelPricePerLiter cfg);
          distanceKm = js_over (ToNumber (rd_distance r)) 1000;
          fuelNeeded = js_times (js_over distanceKm 100) (Num fuelEfficiency);
          fuelCost = js_times fuelNeeded (Num fuelPrice);
          tollCost =
            (case rd_tollInfo r of
               Some t \<Rightarrow> ToNumber (estimatedCost t)
             | None \<Rightarrow> js_times distanceKm (Num (tollEstimatePerKm cfg)))
      in \<lparr>fuelCost = js_over (Math_round (js_times fuelCost (Num 100))) 100,
          tollCost = js_over (Math_round (js_times tollCost (Num 100))) 100,
          totalCost = js_over (Math_round (js_times (js_plus fuelCost tollCost) (Num 100))) 100,
          costs_breakdown =
            \<lparr>bd_distance = distanceKm, bd_fuelNeeded = fuelNeeded,
             bd_fuelEfficiency = fuelEfficiency, bd_fuelPrice = fuelPrice\<rparr>,
          costs_assumptions =
            \<lparr>as_fuelEfficiency = fuelEfficiency, as_fuelPrice = fuelPrice,
             as_tollEstimate = ''Based on route analysis''\<rparr>\<rparr>)"

section \<open>Tool handlers and dispatcher (index.js)\<close>

text \<open>
  The \<open>arguments\<close> object of a tool call, with every property that some handler
  destructures; \<open>None\<close> is a missing property. The server does not validate the
  arguments against the input schemas.
\<close>

record tool_args =
  a_origin :: "string option"
  a_destination :: "string option"
  a_waypoints :: "string list option"
  a_options :: "route_options option"
  a_alternatives :: "bool option"
  a_compareOptions :: "route_options list option"
  a_departureTime :: "string option"
  a_route :: "route_data option"
  a_vehicleOptions :: "vehicle_options option"

text \<open>\<open>request.params\<close> of a tool call, which the protocol layer has validated: the name
  is present, the arguments may be absent.\<close>

record request =
  name :: string
  arguments :: "tool_args option"

subsection \<open>Result objects\<close>

record route_out =
  o_summary :: string
  o_distance :: rat
  o_duration :: rat
  o_durationInTraffic :: rat
  o_polyline :: string
  o_steps :: "step list"
  o_warnings :: "string list"
  o_tollInfo :: toll_info

record calc_result =
  calc_success :: bool
  calc_route :: route_out
  calc_timestamp :: string
  calc_trafficModel :: string

datatype route_label = Default | Opt route_options | NoOption

record compared_route =
  c_id :: nat
  c_summary :: string
  c_distance :: rat
  c_duration :: rat
  c_durationInTraffic :: rat
  c_tollInfo :: toll_info
  c_options :: route_label

record comparison =
  cmp_routes :: "compared_route list"
  cmp_recommendation :: recommendation
  fastestRoute :: route
  shortestRoute :: route

record compare_result =
  cmp_success :: bool
  cmp_comparison :: comparison
  cmp_timestamp :: string
  routesCompared :: nat

record traffic_result =
  tr_success :: bool
  currentDuration :: rat
  tr_durationInTraffic :: rat
  trafficDelay :: rat
  trafficCondition :: string
  alternativeTimes :: "(string \<times> alt_time) list"
  tr_route :: route
  tr_timestamp :: string
  tr_departureTime :: string

record costs_result =
  est_success :: bool
  fuel :: jsnum
  tolls :: jsnum
  total :: jsnum
  est_breakdown :: breakdown
  est_assumptions :: assumptions
  est_route :: route_data
  est_timestamp :: string
  currency :: string

datatype result_obj =
    RouteResult calc_result
  | CompareResult compare_result
  | TrafficResult traffic_result
  | CostsResult costs_result

text \<open>The text of a content item: a plain message, or \<open>JSON.stringify(result, null, 2)\<close>
  of a result object, which is kept as the object.\<close>

datatype text_body = Message string | Stringify result_obj

record content_item =
  item_type :: string
  item_text :: text_body

text \<open>What the request handler returns; \<open>isError\<close> is absent from a successful result.\<close>

record tool_result =
  content :: "content_item list"
  isError :: "bool option"

definition text_result :: "result_obj \<Rightarrow> tool_result" where
  "text_result r =
     \<lparr>content = [\<lparr>item_type = ''text'', item_text = Stringify r\<rparr>], isError = None\<rparr>"

subsection \<open>Handlers\<close>

text \<open>A handler returns the events of its run and either the message of the error it
  raises or its result. Destructuring an absent \<open>arguments\<close> object raises.\<close>

definition handleCalculateRoute ::
  "env \<Rightarrow> tool_args option \<Rightarrow> event list \<times> (string + tool_result)" where
  "handleCalculateRoute e args =
     (case args of
        None \<Rightarrow> ([], Inl (undefined_destructure ''origin'' ''args''))
      | Some a \<Rightarrow>
          (let waypoints = (case a_waypoints a of None \<Rightarrow> [] | Some ws \<Rightarrow> ws);
               options = (case a_options a of None \<Rightarrow> no_options | Some opts \<Rightarrow> opts);
               (evs, r) = calculateRoute e
                  \<lparr>rp_origin = a_origin a, rp_destination = a_destination a,
                   rp_waypoints = Some waypoints, rp_alternatives = None,
                   rp_options = options\<rparr>
           in (evs,
               case r of
                 Inl msg \<Rightarrow> Inl msg
               | Inr rt \<Rightarrow> Inr (text_result (RouteResult
                   \<lparr>calc_success = True,
                    calc_route =
                      \<lparr>o_summary = summary rt, o_distance = distance rt,
                       o_duration = duration rt, o_durationInTraffic = durationInTraffic rt,
                       o_polyline = polyline rt, o_steps = steps rt,
                       o_warnings = warnings rt, o_tollInfo = tollInfo rt\<rparr>,
                    calc_timestamp = timestamp e,
                    calc_trafficModel =
                      (if truthy_str (trafficModel options)
                       then the (trafficModel options) else ''best_guess'')\<rparr>)))))"

text \<open>
  \<open>Promise.all\<close> over calls that have all been started: every call issues its query,
  and the join fails when one of them does. The model reports the failure of the lowest
  index; the source reports the one that is rejected first in time.
\<close>

fun Promise_all :: "(event list \<times> (string + 'a)) list \<Rightarrow> event list \<times> (string + 'a list)" where
  "Promise_all [] = ([], Inr [])"
| "Promise_all ((evs, r) # ps) =
     (let (evs', rs) = Promise_all ps
      in (evs @ evs',
          case r of
            Inl msg \<Rightarrow> Inl msg
          | Inr v \<Rightarrow> (case rs of Inl msg \<Rightarrow> Inl msg | Inr vs \<Rightarrow> Inr (v # vs))))"

text \<open>The parameters of the calls that \<open>handleCompareRoutes\<close> starts: the default route
  first, then one per comparison option.\<close>

definition compare_params :: "tool_args \<Rightarrow> route_params list" where
  "compare_params a =
     (let waypoints = (case a_waypoints a of None \<Rightarrow> [] | Some ws \<Rightarrow> ws);
          compareOptions = (case a_compareOptions a of None \<Rightarrow> [] | Some os \<Rightarrow> os)
      in \<lparr>rp_origin = a_origin a, rp_destination = a_destination a,
          rp_waypoints = Some waypoints, rp_alternatives = Some True,
          rp_options = no_options\<rparr>
         # map (\<lambda>option.
                  \<lparr>rp_origin = a_origin a, rp_destination = a_destination a,
                   rp_waypoints = Some waypoints, rp_alternatives = None,
                   rp_options = option\<rparr>) compareOptions)"

text \<open>\<open>routes.map((route, index) => ...)\<close>; \<open>compareOptions[index - 1]\<close> past the end
  of the array is \<open>undefined\<close>.\<close>

definition compared :: "route_options list \<Rightarrow> nat \<times> route \<Rightarrow> compared_route" where
  "compared compareOptions ir =
     (case ir of (index, rt) \<Rightarrow>
        \<lparr>c_id = index,
         c_summary = summary rt,
         c_distance = distance rt,
         c_duration = duration rt,
         c_durationInTraffic = durationInTraffic rt,
         c_tollInfo = tollInfo rt,
         c_options =
           (if index = 0 then Default
            else if index - 1 < length compareOptions then Opt (compareOptions ! (index - 1))
            else NoOption)\<rparr>)"

definition compare_body :: "env \<Rightarrow> tool_args \<Rightarrow> route list \<Rightarrow> string + tool_result" where
  "compare_body e a routes =
     (let compareOptions = (case a_compareOptions a of None \<Rightarrow> [] | Some os \<Rightarrow> os)
      in case findBestRoute routes of
           Inl msg \<Rightarrow> Inl msg
         | Inr best \<Rightarrow>
             (case reduce (\<lambda>fastest current.
                      if durationInTraffic current < durationInTraffic fastest
                      then current else fastest) routes of
                Inl msg \<Rightarrow> Inl msg
              | Inr fastest \<Rightarrow>
                  (case reduce (\<lambda>shortest current.
                           if distance current < distance shortest
                           then current else shortest) routes of
                     Inl msg \<Rightarrow> Inl msg
                   | Inr shortest \<Rightarrow> Inr (text_result (CompareResult
                       \<lparr>cmp_success = True,
                        cmp_comparison =
                          \<lparr>cmp_routes =
                             map (compared compareOptions) (zip [0 ..< length routes] routes),
                           cmp_recommendation = best,
                           fastestRoute = fastest,
                           shortestRoute = shortest\<rparr>,
                        cmp_timestamp = timestamp e,
                        routesCompared = length routes\<rparr>)))))"

definition handleCompareRoutes ::
  "env \<Rightarrow> tool_args option \<Rightarrow> event list \<times> (string + tool_result)" where
  "handleCompareRoutes e args =
     (case args of
        None \<Rightarrow> ([], Inl (undefined_destructure ''origin'' ''args''))
      | Some a \<Rightarrow>
          (let (evs, r) = Promise_all (map (calculateRoute e) (compare_params a))
           in (evs,
               case r of
                 Inl msg \<Rightarrow> Inl msg
               | Inr routes \<Rightarrow> compare_body e a routes)))"

definition handleGetLiveTraffic ::
  "env \<Rightarrow> tool_args option \<Rightarrow> event list \<times> (string + tool_result)" where
  "handleGetLiveTraffic e args =
     (case args of
        None \<Rightarrow> ([], Inl (undefined_destructure ''origin'' ''args''))
      | Some a \<Rightarrow>
          (let departureTime = (case a_departureTime a of None \<Rightarrow> ''now'' | Some s \<Rightarrow> s);
               (evs, r) = getTrafficInfo e
                  \<lparr>tp_origin = a_origin a, tp_destination = a_destination a,
                   tp_departureTime = Some departureTime\<rparr>
           in (evs,
               case r of
                 Inl msg \<Rightarrow> Inl msg
               | Inr trafficData \<Rightarrow> Inr (text_result (TrafficResult
                   \<lparr>tr_success = True,
                    currentDuration = td_duration trafficData,
                    tr_durationInTraffic = td_durationInTraffic trafficData,
                    trafficDelay = td_durationInTraffic trafficData - td_duration trafficData,
                    trafficCondition = getTrafficCondition trafficData,
                    alternativeTimes = td_alternativeTimes trafficData,
                    tr_route = td_route trafficData,
                    tr_timestamp = timestamp e,
                    tr_departureTime = departureTime\<rparr>)))))"

text \<open>
  The first part of \<open>handleEstimateCosts\<close>: the route data, which is the \<open>route\<close>
  argument unless that is missing and both \<open>origin\<close> and \<open>destination\<close> are truthy, in
  which case a route is calculated.
\<close>

definition estimate_routeData ::
  "env \<Rightarrow> tool_args \<Rightarrow> event list \<times> (string + route_data option)" where
  "estimate_routeData e a =
     (if a_route a = None \<and> truthy_str (a_origin a) \<and> truthy_str (a_destination a)
      then (let (evs, r) = calculateRoute e
                  \<lparr>rp_origin = a_origin a, rp_destination = a_destination a,
                   rp_waypoints = None, rp_alternatives = None, rp_options = no_options\<rparr>
            in (evs, case r of Inl msg \<Rightarrow> Inl msg | Inr rt \<Rightarrow> Inr (Some (route_data_of rt))))
      else ([], Inr (a_route a)))"

definition no_vehicle_options :: vehicle_options where
  "no_vehicle_options = \<lparr>fuelEfficiency = None, fuelPrice = None\<rparr>"

definition handleEstimateCosts ::
  "env \<Rightarrow> tool_args option \<Rightarrow> event list \<times> (string + tool_result)" where
  "handleEstimateCosts e args =
     (case args of
        None \<Rightarrow> ([], Inl (undefined_destructure ''route'' ''args''))
      | Some a \<Rightarrow>
          (let vehicleOptions =
                 (case a_vehicleOptions a of None \<Rightarrow> no_vehicle_options | Some v \<Rightarrow> v);
               (evs, r) = estimate_routeData e a
           in (evs,
               case r of
                 Inl msg \<Rightarrow> Inl msg
               | Inr None \<Rightarrow> Inl ''No route data available for cost estimation''
               | Inr (Some routeData) \<Rightarrow>
                   (let costs = calculateTripCosts (costs e) routeData vehicleOptions
                    in Inr (text_result (CostsResult
                         \<lparr>est_success = True,
                          fuel = fuelCost costs,
                          tolls = tollCost costs,
                          total = totalCost costs,
                          est_breakdown = costs_breakdown costs,
                          est_assumptions = costs_assumptions costs,
                          est_route = routeData,
                          est_timestamp = timestamp e,
                          currency = ''USD''\<rparr>))))))"

subsection \<open>Dispatcher\<close>

definition error_result :: "string \<Rightarrow> tool_result" where
  "error_result msg =
     \<lparr>content = [\<lparr>item_type = ''text'', item_text = Message (''Error: '' @ msg)\<rparr>],
      isError = Some True\<rparr>"

text \<open>The \<open>switch\<close> of the request handler, inside its \<open>try\<close> block.\<close>

definition dispatch :: "env \<Rightarrow> request \<Rightarrow> event list \<times> (string + tool_result)" where
  "dispatch e req =
     (if name req = ''calculate_route'' then handleCalculateRoute e (arguments req)
      else if name req = ''compare_routes'' then handleCompareRoutes e (arguments req)
      else if name req = ''get_live_traffic'' then handleGetLiveTraffic e (arguments req)
      else if name req = ''estimate_costs'' then handleEstimateCosts e (arguments req)
      else ([], Inl (''Unknown tool: '' @ name req)))"

text \<open>The handler of tool-call requests: the \<open>catch\<close> turns every error into an error
  result.\<close>

definition callTool :: "env \<Rightarrow> request \<Rightarrow> event list \<times> tool_result" where
  "callTool e req =
     (let (evs, r) = dispatch e req
      in (evs, case r of Inl msg \<Rightarrow> error_result msg | Inr res \<Rightarrow> res))"

section \<open>Notions used in the statements\<close>

text \<open>The delay ratio of a traffic snapshot, the classification that the specification
  gives for a ratio, and the order of the four labels.\<close>

definition delay_ratio :: "traffic_data \<Rightarrow> rat" where
  "delay_ratio td = (td_durationInTraffic td - td_duration td) / td_duration td"

definition classify_ratio :: "rat \<Rightarrow> string" where
  "classify_ratio ratio =
     (if ratio < 1 / 10 then ''light''
      else if ratio < 3 / 10 then ''moderate''
      else if ratio < 5 / 10 then ''heavy''
      else ''severe'')"

definition severity :: "string \<Rightarrow> nat" where
  "severity c =
     (if c = ''light'' then 0 else if c = ''moderate'' then 1
      else if c = ''heavy'' then 2 else 3)"

text \<open>The durations of a provider route are not negative, as the directions service
  documents them.\<close>

definition durations_nonneg :: "raw_route \<Rightarrow> bool" where
  "durations_nonneg r =
     list_all (\<lambda>leg. 0 \<le> leg_duration leg
                 \<and> (case leg_duration_in_traffic leg of None \<Rightarrow> True | Some v \<Rightarrow> 0 \<le> v))
       (raw_legs r)"

text \<open>Position \<open>k\<close> holds a least value of \<open>f\<close> in \<open>xs\<close>, and every earlier position
  holds a strictly greater one.\<close>

definition is_first_min :: "('a \<Rightarrow> rat) \<Rightarrow> 'a list \<Rightarrow> nat \<Rightarrow> bool" where
  "is_first_min f xs k =
     (k < length xs
      \<and> (\<forall>j \<in> {..<length xs}. f (xs ! k) \<le> f (xs ! j))
      \<and> (\<forall>j \<in> {..<k}. f (xs ! k) < f (xs ! j)))"

text \<open>The callback of the three \<open>reduce\<close> calls, for a key \<open>f\<close>.\<close>

definition pick_less :: "('a \<Rightarrow> rat) \<Rightarrow> 'a \<Rightarrow> 'a \<Rightarrow> 'a" where
  "pick_less f best current = (if f current < f best then current else best)"

text \<open>The primary query of \<open>getTrafficInfo\<close> has answered with a first route that has a
  leg: the part of the call before and after the sampling raises nothing.\<close>

definition primary_ok :: "string + response \<Rightarrow> bool" where
  "primary_ok answer =
     (case answer of
        Inl msg \<Rightarrow> False
      | Inr routes \<Rightarrow> (case routes of [] \<Rightarrow> False | r # rs \<Rightarrow> raw_legs r \<noteq> []))"

text \<open>The sampling iteration for an offset raises nothing.\<close>

definition sample_ok :: "env \<Rightarrow> string option \<Rightarrow> string option \<Rightarrow> nat \<Rightarrow> bool" where
  "sample_ok e origin destination offset =
     (\<not> isl (sample_try (directions e (sample_query e origin destination offset))))"

text \<open>The labels of the warnings in a run, and the label of the warning for an offset.\<close>

fun warned :: "event list \<Rightarrow> string list" where
  "warned [] = []"
| "warned (Query q # evs) = warned evs"
| "warned (Warn label msg # evs) = label # warned evs"

definition warning_label :: "nat \<Rightarrow> string" where
  "warning_label offset = ''Failed to get alternative time for '' @ offset_label offset @ '':''"

text \<open>The comparison options of a call, an absent array being empty.\<close>

definition compare_options :: "tool_args \<Rightarrow> route_options list" where
  "compare_options a = (case a_compareOptions a of None \<Rightarrow> [] | Some os \<Rightarrow> os)"

text \<open>The parameters that \<open>handleCalculateRoute\<close> passes to \<open>calculateRoute\<close>.\<close>

definition calculate_route_params :: "tool_args \<Rightarrow> route_params" where
  "calculate_route_params a =
     \<lparr>rp_origin = a_origin a, rp_destination = a_destination a,
      rp_waypoints = Some (case a_waypoints a of None \<Rightarrow> [] | Some ws \<Rightarrow> ws),
      rp_alternatives = None,
      rp_options = (case a_options a of None \<Rightarrow> no_options | Some opts \<Rightarrow> opts)\<rparr>"

section \<open>Example inputs\<close>

definition ex_step :: raw_step where
  "ex_step = \<lparr>html_instructions = ''Turn <b>left</b> onto Main St'',
     step_distance_text = ''0.5 km'', step_duration_text = ''1 min'',
     step_maneuver = Some ''turn-left''\<rparr>"

definition ex_leg :: "rat \<Rightarrow> rat \<Rightarrow> rat option \<Rightarrow> raw_leg" where
  "ex_leg meters secs traffic =
     \<lparr>leg_distance = meters, leg_duration = secs, leg_duration_in_traffic = traffic,
      leg_steps = [ex_step]\<rparr>"

definition ex_raw :: "rat \<Rightarrow> rat \<Rightarrow> rat option \<Rightarrow> raw_route" where
  "ex_raw meters secs traffic =
     \<lparr>raw_summary = ''I-95 N'', raw_legs = [ex_leg meters secs traffic],
      raw_polyline = ''abc'', raw_warnings = None,
      raw_bounds = ((0, 0), (1, 1)), raw_copyrights = ''Map data''\<rparr>"

text \<open>The cost defaults of the documented configuration.\<close>

definition ex_costs :: costs_config where
  "ex_costs = \<lparr>fuelPricePerLiter = 3 / 2, vehicleFuelEfficiency = 8, tollEstimatePerKm = 1 / 20\<rparr>"

definition ex_route :: "rat \<Rightarrow> rat \<Rightarrow> rat \<Rightarrow> route" where
  "ex_route meters secs traffic =
     \<lparr>summary = ''I-95 N'', distance = meters, duration = secs, durationInTraffic = traffic,
      polyline = ''abc'', steps = [], warnings = [],
      tollInfo = \<lparr>hasTolls = False, toll_warnings = [], estimatedCost = Null\<rparr>,
      route_bounds = ((0, 0), (1, 1)), copyrights = ''Map data''\<rparr>"

definition ex_traffic :: "rat \<Rightarrow> rat \<Rightarrow> traffic_data" where
  "ex_traffic secs traffic =
     \<lparr>td_duration = secs, td_durationInTraffic = traffic,
      td_route = ex_route 100000 secs traffic, td_alternativeTimes = []\<rparr>"

definition no_args :: tool_args where
  "no_args =
     \<lparr>a_origin = None, a_destination = None, a_waypoints = None, a_options = None,
      a_alternatives = None, a_compareOptions = None, a_departureTime = None,
      a_route = None, a_vehicleOptions = None\<rparr>"

definition ex_env :: "(dparams \<Rightarrow> string + response) \<Rightarrow> env" where
  "ex_env provider =
     \<lparr>apiKey = ''key'', directions = provider, costs = ex_costs,
      Date_now = (\<lambda>offset. 0), timestamp = ''2024-01-01T00:00:00.000Z''\<rparr>"

definition ex_route_data :: route_data where
  "ex_route_data =
     \<lparr>rd_distance = Number 100000, rd_duration = Number 3600,
      rd_tollInfo = Some \<lparr>hasTolls = True, toll_warnings = [''This route has tolls.''],
                          estimatedCost = Number (7 / 2)\<rparr>\<rparr>"

definition ex_estimate_args :: tool_args where
  "ex_estimate_args =
     no_args\<lparr>a_origin := Some ''New York, NY'', a_destination := Some ''Boston, MA'',
             a_route := Some ex_route_data\<rparr>"

definition ex_provider :: "dparams \<Rightarrow> string + response" where
  "ex_provider q =
     (if p_avoid q = Some ''tolls'' then Inl ''OVER_QUERY_LIMIT''
      else case p_departure_time q of
             DepNow \<Rightarrow> Inr [ex_raw 100000 3600 (Some 4000)]
           | DepDate s \<Rightarrow> Inl ''INVALID_REQUEST''
           | DepAt t \<Rightarrow>
               if t = 1800000 then Inl ''OVER_QUERY_LIMIT''
               else if t = 3600000 then Inr [ex_raw 100000 3600 (Some 4200)]
               else Inr [])"

definition ex_traffic_params :: traffic_params where
  "ex_traffic_params =
     \<lparr>tp_origin = Some ''New York, NY'', tp_destination = Some ''Boston, MA'',
      tp_departureTime = None\<rparr>"

definition ex_compare_args :: tool_args where
  "ex_compare_args =
     no_args\<lparr>a_origin := Some ''New York, NY'', a_destination := Some ''Boston, MA'',
             a_compareOptions := Some [no_options\<lparr>avoidTolls := Some True\<rparr>]\<rparr>"

definition ex_ranking_provider :: "dparams \<Rightarrow> string + response" where
  "ex_ranking_provider q =
     (if p_avoid q = Some ''tolls'' then Inr [ex_raw 120000 4000 (Some 3900)]
      else if p_avoid q = Some ''highways'' then Inr [ex_raw 90000 5000 (Some 3900)]
      else Inr [ex_raw 100000 3600 (Some 4000)])"

definition ex_ranking_args :: tool_args where
  "ex_ranking_args =
     no_args\<lparr>a_origin := Some ''New York, NY'', a_destination := Some ''Boston, MA'',
             a_compareOptions := Some [no_options\<lparr>avoidTolls := Some True\<rparr>,
                                       no_options\<lparr>avoidHighways := Some True\<rparr>]\<rparr>"

definition ex_route_params :: route_params where
  "ex_route_params =
     \<lparr>rp_origin = Some ''New York, NY'', rp_destination = Some ''Boston, MA'',
      rp_waypoints = None, rp_alternatives = None, rp_options = no_options\<rparr>"

definition ex_route_args :: tool_args where
  "ex_route_args =
     no_args\<lparr>a_origin := Some ''New York, NY'', a_destination := Some ''Boston, MA''\<rparr>"

definition env_no_routes :: env where
  "env_no_routes = ex_env (\<lambda>q. Inr [])"

definition env_rejected :: "string \<Rightarrow> env" where
  "env_rejected msg = ex_env (\<lambda>q. Inl msg)"

section \<open>Properties\<close>

subsection \<open>Auxiliary facts\<close>

lemma condition_is_step:
  "0 < td_duration td \<Longrightarrow> getTrafficCondition td = classify_ratio (delay_ratio td)"
  by (simp add: getTrafficCondition_def classify_ratio_def delay_ratio_def Let_def)

lemma classify_ratio_range:
  "classify_ratio x \<in> {''light'', ''moderate'', ''heavy'', ''severe''}"
  by (simp add: classify_ratio_def)

lemma classify_ratio_mono:
  "x \<le> y \<Longrightarrow> severity (classify_ratio x) \<le> severity (classify_ratio y)"
  by (simp add: classify_ratio_def severity_def)

lemma foldl_first_min:
  "\<exists>k. is_first_min f (x # xs) k \<and> foldl (pick_less f) x xs = (x # xs) ! k"
proof (induction xs rule: rev_induct)
  case Nil
  have "is_first_min f [x] 0" by (simp add: is_first_min_def)
  then show ?case by auto
next
  case (snoc y ys)
  then obtain k where k: "is_first_min f (x # ys) k" "foldl (pick_less f) x ys = (x # ys) ! k"
    by blast
  let ?zs = "x # ys @ [y]"
  have klen: "k < length (x # ys)" using k(1) by (simp add: is_first_min_def)
  have kall: "\<And>j. j < length (x # ys) \<Longrightarrow> f ((x # ys) ! k) \<le> f ((x # ys) ! j)"
    using k(1) by (simp add: is_first_min_def)
  have kbefore: "\<And>j. j < k \<Longrightarrow> f ((x # ys) ! k) < f ((x # ys) ! j)"
    using k(1) by (simp add: is_first_min_def)
  have old: "\<And>j. j < length (x # ys) \<Longrightarrow> ?zs ! j = (x # ys) ! j"
    by (metis append_Cons nth_append)
  have new: "?zs ! length (x # ys) = y"
    by (metis append_Cons nth_append_length)
  show ?case
  proof (cases "f y < f ((x # ys) ! k)")
    case True
    have "is_first_min f ?zs (length (x # ys))"
      unfolding is_first_min_def
    proof (intro conjI ballI)
      show "length (x # ys) < length ?zs" by simp
    next
      fix j assume "j \<in> {..<length ?zs}"
      then have "j < length (x # ys) \<or> j = length (x # ys)" by auto
      then show "f (?zs ! length (x # ys)) \<le> f (?zs ! j)"
      proof
        assume j: "j < length (x # ys)"
        then have "f ((x # ys) ! k) \<le> f ((x # ys) ! j)" by (rule kall)
        with True show ?thesis unfolding new old [OF j] by simp
      next
        assume "j = length (x # ys)"
        then show ?thesis by simp
      qed
    next
      fix j assume "j \<in> {..<length (x # ys)}"
      then have j: "j < length (x # ys)" by simp
      then have "f ((x # ys) ! k) \<le> f ((x # ys) ! j)" by (rule kall)
      with True show "f (?zs ! length (x # ys)) < f (?zs ! j)"
        unfolding new old [OF j] by simp
    qed
    moreover have "foldl (pick_less f) x (ys @ [y]) = ?zs ! length (x # ys)"
      unfolding new using True k(2) by (simp add: pick_less_def)
    ultimately show ?thesis by blast
  next
    case False
    have "is_first_min f ?zs k"
      unfolding is_first_min_def
    proof (intro conjI ballI)
      show "k < length ?zs" using klen by simp
    next
      fix j assume "j \<in> {..<length ?zs}"
      then have "j < length (x # ys) \<or> j = length (x # ys)" by auto
      then show "f (?zs ! k) \<le> f (?zs ! j)"
      proof
        assume j: "j < length (x # ys)"
        then show ?thesis unfolding old [OF klen] old [OF j] by (rule kall)
      next
        assume j: "j = length (x # ys)"
        show ?thesis unfolding j new old [OF klen] using False by simp
      qed
    next
      fix j assume "j \<in> {..<k}"
      then have j: "j < k" by simp
      then have jl: "j < length (x # ys)" using klen by simp
      show "f (?zs ! k) < f (?zs ! j)"
        unfolding old [OF klen] old [OF jl] using j by (rule kbefore)
    qed
    moreover have "foldl (pick_less f) x (ys @ [y]) = ?zs ! k"
      unfolding old [OF klen] using False k(2) by (simp add: pick_less_def)
    ultimately show ?thesis by blast
  qed
qed

lemma first_min_unique:
  "is_first_min f xs k \<Longrightarrow> is_first_min f xs k' \<Longrightarrow> k = k'"
  unfolding is_first_min_def
  by (metis lessThan_iff linorder_neqE_nat not_less)

lemma Promise_all_length:
  "Promise_all ps = (evs, Inr vs) \<Longrightarrow> length vs = length ps"
  by (induction ps arbitrary: evs vs)
     (auto split: prod.splits sum.splits)

lemma Promise_all_Inr:
  "snd (Promise_all ps) = Inr vs \<longleftrightarrow> map snd ps = map Inr vs"
proof (induction ps arbitrary: vs)
  case Nil
  then show ?case by auto
next
  case (Cons p ps)
  obtain evs r where p: "p = (evs, r)" by (cases p)
  obtain evs' rs where rest: "Promise_all ps = (evs', rs)" by (cases "Promise_all ps")
  show ?case
  proof (cases r)
    case (Inl msg)
    then show ?thesis using p rest by (cases vs) auto
  next
    case (Inr v)
    show ?thesis
    proof (cases rs)
      case (Inl msg)
      then have "\<And>ws. map snd ps \<noteq> map Inr ws"
        using Cons.IH rest by (metis Inl_Inr_False snd_conv)
      then show ?thesis using p rest Inr Inl by (cases vs) auto
    next
      case inner: (Inr ws)
      have "snd (Promise_all ps) = Inr ws" using rest inner by simp
      then have "map snd ps = map Inr ws" by (simp only: Cons.IH)
      then show ?thesis using p rest Inr inner by (cases vs) (auto simp: inj_map_eq_map)
    qed
  qed
qed

lemma Promise_all_fails:
  "isl (snd (Promise_all ps)) \<longleftrightarrow> (\<exists>p \<in> set ps. isl (snd p))"
  by (induction ps) (auto split: prod.splits sum.splits)

lemma Promise_all_events:
  "fst (Promise_all ps) = concat (map fst ps)"
  by (induction ps) (auto split: prod.splits)

lemma handler_results:
  "handleCalculateRoute e args = (evs, Inr res) \<Longrightarrow> \<exists>obj. res = text_result obj"
  "handleCompareRoutes e args = (evs, Inr res) \<Longrightarrow> \<exists>obj. res = text_result obj"
  "handleGetLiveTraffic e args = (evs, Inr res) \<Longrightarrow> \<exists>obj. res = text_result obj"
  "handleEstimateCosts e args = (evs, Inr res) \<Longrightarrow> \<exists>obj. res = text_result obj"
  by (auto simp: handleCalculateRoute_def handleCompareRoutes_def handleGetLiveTraffic_def
      handleEstimateCosts_def compare_body_def Let_def
      split: option.splits prod.splits sum.splits)

lemma dispatch_results:
  "dispatch e req = (evs, Inr res) \<Longrightarrow> \<exists>obj. res = text_result obj"
  unfolding dispatch_def
  by (auto split: if_splits dest: handler_results)

lemma floor_rat_divide_numeral:
  "\<lfloor>(numeral a :: rat) / numeral b\<rfloor> = numeral a div numeral b"
  by (metis floor_divide_of_int_eq of_int_numeral)

lemma calculateRoute_events: "fst (calculateRoute e p) = [Query (route_query e p)]"
  by (simp add: calculateRoute_def Let_def)

lemma compare_events:
  "fst (Promise_all (map (calculateRoute e) ps)) = map (\<lambda>p. Query (route_query e p)) ps"
  by (induction ps) (auto simp: calculateRoute_def Let_def split: prod.splits)

lemma compare_params_alternatives:
  "compare_params (a\<lparr>a_alternatives := x\<rparr>) = compare_params a"
  by (simp add: compare_params_def)

lemma compare_body_alternatives:
  "compare_body e (a\<lparr>a_alternatives := x\<rparr>) routes = compare_body e a routes"
  by (simp add: compare_body_def)

lemma handleCompareRoutes_alternatives:
  "handleCompareRoutes e (Some (a\<lparr>a_alternatives := x\<rparr>)) = handleCompareRoutes e (Some a)"
  by (simp add: handleCompareRoutes_def compare_params_alternatives compare_body_alternatives
      split: prod.splits sum.splits)

lemma handleCompareRoutes_events:
  "fst (handleCompareRoutes e (Some a)) = map (\<lambda>p. Query (route_query e p)) (compare_params a)"
proof -
  have "fst (handleCompareRoutes e (Some a))
          = fst (Promise_all (map (calculateRoute e) (compare_params a)))"
    by (simp add: handleCompareRoutes_def split: prod.splits)
  then show ?thesis by (simp only: compare_events)
qed

lemma callTool_compare:
  "callTool e \<lparr>name = ''compare_routes'', arguments = Some a\<rparr>
     = (fst (handleCompareRoutes e (Some a)),
        case snd (handleCompareRoutes e (Some a)) of
          Inl msg \<Rightarrow> error_result msg | Inr res \<Rightarrow> res)"
  by (simp add: callTool_def dispatch_def split: prod.splits)

lemma sample_loop_keys:
  "map fst (snd (sample_loop e origin destination offsets))
     = map offset_label (filter (sample_ok e origin destination) offsets)"
  by (induction offsets)
     (auto simp: sample_ok_def Let_def split: prod.splits sum.splits)

lemma sample_loop_warned:
  "warned (fst (sample_loop e origin destination offsets))
     = map warning_label (filter (\<lambda>t. \<not> sample_ok e origin destination t) offsets)"
  by (induction offsets)
     (auto simp: sample_ok_def warning_label_def Let_def split: prod.splits sum.splits)

lemma getTrafficInfo_fails:
  "isl (snd (getTrafficInfo e params)) \<longleftrightarrow> \<not> primary_ok (directions e (traffic_query e params))"
  by (auto simp: getTrafficInfo_def getTrafficInfo_try_def primary_ok_def formatRouteResponse_def
      Let_def split: prod.splits sum.splits list.splits)

lemma getTrafficInfo_samples:
  assumes "primary_ok (directions e (traffic_query e params))"
  shows "\<exists>td. snd (getTrafficInfo e params) = Inr td
           \<and> map fst (td_alternativeTimes td)
               = map offset_label
                   (filter (sample_ok e (tp_origin params) (tp_destination params)) timeOffsets)
           \<and> warned (fst (getTrafficInfo e params))
               = map warning_label
                   (filter (\<lambda>t. \<not> sample_ok e (tp_origin params) (tp_destination params) t)
                      timeOffsets)"
proof -
  obtain r rs leg legs where ans: "directions e (traffic_query e params) = Inr (r # rs)"
    and legs: "raw_legs r = leg # legs"
    using assms by (auto simp: primary_ok_def neq_Nil_conv split: sum.splits list.splits)
  obtain evs alts where loop:
    "sample_loop e (tp_origin params) (tp_destination params) timeOffsets = (evs, alts)"
    by (cases "sample_loop e (tp_origin params) (tp_destination params) timeOffsets")
  have keys: "map fst alts = map offset_label
      (filter (sample_ok e (tp_origin params) (tp_destination params)) timeOffsets)"
    using sample_loop_keys [of e "tp_origin params" "tp_destination params" timeOffsets] loop
    by simp
  have warns: "warned evs = map warning_label
      (filter (\<lambda>t. \<not> sample_ok e (tp_origin params) (tp_destination params) t) timeOffsets)"
    using sample_loop_warned [of e "tp_origin params" "tp_destination params" timeOffsets] loop
    by simp
  show ?thesis
    using ans legs loop keys warns
    by (simp add: getTrafficInfo_def getTrafficInfo_try_def getAlternativeTimes_def
        formatRouteResponse_def Let_def)
qed

lemma compare_body_succeeds:
  "routes \<noteq> [] \<Longrightarrow> \<not> isl (compare_body e a routes)"
  by (cases routes) (simp_all add: compare_body_def findBestRoute_def Let_def)

lemma handleCompareRoutes_fails:
  "isl (snd (handleCompareRoutes e (Some a)))
     \<longleftrightarrow> (\<exists>p \<in> set (compare_params a). isl (snd (calculateRoute e p)))"
proof -
  let ?ps = "map (calculateRoute e) (compare_params a)"
  obtain evs r where pa: "Promise_all ?ps = (evs, r)" by (cases "Promise_all ?ps")
  have fails: "isl r \<longleftrightarrow> (\<exists>p \<in> set (compare_params a). isl (snd (calculateRoute e p)))"
    using Promise_all_fails [of ?ps] pa by simp
  show ?thesis
  proof (cases r)
    case (Inl msg)
    then show ?thesis using pa fails by (simp add: handleCompareRoutes_def)
  next
    case (Inr routes)
    then have "length routes = length ?ps" using pa Promise_all_length by blast
    then have "routes \<noteq> []" by (auto simp: compare_params_def Let_def)
    then have "\<not> isl (compare_body e a routes)" by (rule compare_body_succeeds)
    then show ?thesis using pa fails Inr by (simp add: handleCompareRoutes_def)
  qed
qed

lemma offset_labels:
  "offset_label 1800 = ''+30min''" "offset_label 3600 = ''+60min''"
  "offset_label 7200 = ''+120min''"
  by code_simp+

lemma ex_samples:
  "\<not> sample_ok (ex_env ex_provider) (Some ''New York, NY'') (Some ''Boston, MA'') 1800"
  "sample_ok (ex_env ex_provider) (Some ''New York, NY'') (Some ''Boston, MA'') 3600"
  "\<not> sample_ok (ex_env ex_provider) (Some ''New York, NY'') (Some ''Boston, MA'') 7200"
  by (simp_all add: sample_ok_def sample_query_def ex_env_def ex_provider_def sample_try_def
      ex_raw_def)

lemma reduce_callback:
  "(\<lambda>best current. if f current < f best then current else best) = pick_less f"
  by (intro ext) (simp add: pick_less_def)

lemma compared_ids:
  "length routes = n \<Longrightarrow> map c_id (map (compared os) (zip [0 ..< n] routes)) = [0 ..< n]"
proof -
  assume len: "length routes = n"
  have "map c_id (map (compared os) (zip [0 ..< n] routes)) = map fst (zip [0 ..< n] routes)"
    by (simp add: compared_def split_def)
  then show ?thesis using len by simp
qed

lemma compared_durations:
  "length routes = n \<Longrightarrow>
     map c_durationInTraffic (map (compared os) (zip [0 ..< n] routes))
       = map durationInTraffic routes"
proof -
  assume len: "length routes = n"
  have "map c_durationInTraffic (map (compared os) (zip [0 ..< n] routes))
          = map durationInTraffic (map snd (zip [0 ..< n] routes))"
    by (simp add: compared_def split_def)
  then show ?thesis using len by simp
qed

lemma compared_distances:
  "length routes = n \<Longrightarrow>
     map c_distance (map (compared os) (zip [0 ..< n] routes)) = map distance routes"
proof -
  assume len: "length routes = n"
  have "map c_distance (map (compared os) (zip [0 ..< n] routes))
          = map distance (map snd (zip [0 ..< n] routes))"
    by (simp add: compared_def split_def)
  then show ?thesis using len by simp
qed

lemma compared_labels:
  assumes "length routes = Suc (length os)"
  shows "map c_options (map (compared os) (zip [0 ..< Suc (length os)] routes))
           = Default # map Opt os"
proof -
  let ?label = "\<lambda>i. if i = 0 then Default
                     else if i - 1 < length os then Opt (os ! (i - 1)) else NoOption"
  have "map c_options (map (compared os) (zip [0 ..< Suc (length os)] routes))
          = map ?label (map fst (zip [0 ..< Suc (length os)] routes))"
    by (simp add: compared_def split_def)
  also have "\<dots> = map ?label [0 ..< Suc (length os)]"
    using assms by simp
  also have "\<dots> = ?label 0 # map ?label (map Suc [0 ..< length os])"
    by (simp only: upt_conv_Cons [OF zero_less_Suc] map_Suc_upt list.map)
  also have "\<dots> = Default # map (\<lambda>i. Opt (os ! i)) [0 ..< length os]"
    by simp
  also have "\<dots> = Default # map Opt (map (\<lambda>i. os ! i) [0 ..< length os])"
    by simp
  also have "\<dots> = Default # map Opt os"
    by (simp only: map_nth)
  finally show ?thesis .
qed

lemma ex_ranking_calls:
  "map (calculateRoute (ex_env ex_ranking_provider)) (compare_params ex_ranking_args)
     = map (\<lambda>(q, r). ([Query q], formatRouteResponse r))
         [(route_query (ex_env ex_ranking_provider) (compare_params ex_ranking_args ! 0),
           ex_raw 100000 3600 (Some 4000)),
          (route_query (ex_env ex_ranking_provider) (compare_params ex_ranking_args ! 1),
           ex_raw 120000 4000 (Some 3900)),
          (route_query (ex_env ex_ranking_provider) (compare_params ex_ranking_args ! 2),
           ex_raw 90000 5000 (Some 3900))]"
  by (simp add: calculateRoute_def calculateRoute_try_def route_query_def compare_params_def
      ex_ranking_args_def no_args_def no_options_def buildAvoidString_def ex_env_def
      ex_ranking_provider_def formatRouteResponse_def ex_raw_def Let_def)

lemma ex_ranking_routes:
  "map snd (map (calculateRoute (ex_env ex_ranking_provider)) (compare_params ex_ranking_args))
     = map Inr routes
   \<Longrightarrow> map durationInTraffic routes = [4000, 3900, 3900]
       \<and> map distance routes = [100000, 120000, 90000]"
  unfolding ex_ranking_calls
  by (auto simp: formatRouteResponse_def ex_raw_def ex_leg_def map_eq_Cons_conv)

lemma first_min_durations:
  "map f xs = [4000, 3900, 3900] \<Longrightarrow> is_first_min f xs k \<Longrightarrow> k = 1"
proof -
  assume m: "map f xs = [4000, 3900, 3900]" and k: "is_first_min f xs k"
  from m obtain a b c where xs: "xs = [a, b, c]" and v: "f a = 4000" "f b = 3900" "f c = 3900"
    by (auto simp: map_eq_Cons_conv)
  have "is_first_min f xs 1"
    unfolding xs is_first_min_def using v by (auto simp: lessThan_Suc numeral_3_eq_3)
  with k show ?thesis by (rule first_min_unique)
qed

lemma first_min_distances:
  "map f xs = [100000, 120000, 90000] \<Longrightarrow> is_first_min f xs k \<Longrightarrow> k = 2"
proof -
  assume m: "map f xs = [100000, 120000, 90000]" and k: "is_first_min f xs k"
  from m obtain a b c where xs: "xs = [a, b, c]"
    and v: "f a = 100000" "f b = 120000" "f c = 90000"
    by (auto simp: map_eq_Cons_conv)
  have "is_first_min f xs 2"
    unfolding xs is_first_min_def using v
    by (auto simp: lessThan_Suc numeral_3_eq_3 numeral_2_eq_2)
  with k show ?thesis by (rule first_min_unique)
qed

subsection \<open>Traffic classifier\<close>

text \<open>
  C4. For a positive duration, \<open>getTrafficCondition\<close> is the step function of the delay
  ratio with thresholds 0.10, 0.30 and 0.50, returns one of the four labels, and is
  monotonic in the ratio; ratios 0.05, 0.15, 0.35 and 0.60 give light, moderate, heavy
  and severe.
\<close>

theorem traffic_condition_step_function:
  assumes "0 < td_duration a" and "0 < td_duration b" and "delay_ratio a \<le> delay_ratio b"
  shows "getTrafficCondition a = classify_ratio (delay_ratio a)
       \<and> getTrafficCondition a \<in> {''light'', ''moderate'', ''heavy'', ''severe''}
       \<and> severity (getTrafficCondition a) \<le> severity (getTrafficCondition b)
       \<and> getTrafficCondition (c\<lparr>td_duration := 100, td_durationInTraffic := 105\<rparr>) = ''light''
       \<and> getTrafficCondition (c\<lparr>td_duration := 100, td_durationInTraffic := 115\<rparr>) = ''moderate''
       \<and> getTrafficCondition (c\<lparr>td_duration := 100, td_durationInTraffic := 135\<rparr>) = ''heavy''
       \<and> getTrafficCondition (c\<lparr>td_duration := 100, td_durationInTraffic := 160\<rparr>) = ''severe''"
proof -
  have step: "getTrafficCondition a = classify_ratio (delay_ratio a)"
    using assms(1) by (rule condition_is_step)
  have stepb: "getTrafficCondition b = classify_ratio (delay_ratio b)"
    using assms(2) by (rule condition_is_step)
  have range: "getTrafficCondition a \<in> {''light'', ''moderate'', ''heavy'', ''severe''}"
    unfolding step by (rule classify_ratio_range)
  have mono: "severity (getTrafficCondition a) \<le> severity (getTrafficCondition b)"
    unfolding step stepb using assms(3) by (rule classify_ratio_mono)
  have ex: "getTrafficCondition (c\<lparr>td_duration := 100, td_durationInTraffic := 105\<rparr>) = ''light''"
    "getTrafficCondition (c\<lparr>td_duration := 100, td_durationInTraffic := 115\<rparr>) = ''moderate''"
    "getTrafficCondition (c\<lparr>td_duration := 100, td_durationInTraffic := 135\<rparr>) = ''heavy''"
    "getTrafficCondition (c\<lparr>td_duration := 100, td_durationInTraffic := 160\<rparr>) = ''severe''"
    by (simp_all add: getTrafficCondition_def Let_def)
  from step range mono ex show ?thesis by blast
qed

theorem traffic_condition_step_function_witness:
  "0 < td_duration (ex_traffic 100 105)
   \<and> 0 < td_duration (ex_traffic 100 160)
   \<and> delay_ratio (ex_traffic 100 105) \<le> delay_ratio (ex_traffic 100 160)
   \<and> getTrafficCondition (ex_traffic 100 105) = ''light''
   \<and> getTrafficCondition (ex_traffic 100 160) = ''severe''
   \<and> severity (getTrafficCondition (ex_traffic 100 105))
       \<le> severity (getTrafficCondition (ex_traffic 100 160))"
  using traffic_condition_step_function
    [of "ex_traffic 100 105" "ex_traffic 100 160" "ex_traffic 100 105"]
  by (simp add: delay_ratio_def ex_traffic_def getTrafficCondition_def classify_ratio_def
      severity_def)

subsection \<open>Normalized routes\<close>

text \<open>
  C8, as stated, does not hold: the durations are copied from the provider's answer with
  no check of their sign, so a traffic duration of \<open>-5\<close> in the answer is the duration
  in traffic of the normalized route.
\<close>

theorem format_negative_duration_counterexample:
  "(case formatRouteResponse (ex_raw 100000 3600 (Some (- 5))) of
      Inl msg \<Rightarrow> False
    | Inr nr \<Rightarrow> durationInTraffic nr = - 5 \<and> durationInTraffic nr < 0)"
  by (simp add: formatRouteResponse_def ex_raw_def ex_leg_def)

text \<open>
  C8, amended. For a provider route with a leg, \<open>formatRouteResponse\<close> produces a route
  whose duration is the leg's duration and whose duration in traffic is the leg's
  traffic-adjusted duration when the leg has one and the leg's duration, hence the
  route's own duration, when it has none. The duration in traffic is not negative when
  the provider's durations are not.
\<close>

theorem format_duration_in_traffic:
  assumes "raw_legs r = leg # legs"
  shows "\<exists>nr. formatRouteResponse r = Inr nr
           \<and> duration nr = leg_duration leg
           \<and> durationInTraffic nr
               = (case leg_duration_in_traffic leg of None \<Rightarrow> leg_duration leg | Some v \<Rightarrow> v)
           \<and> (leg_duration_in_traffic leg = None \<longrightarrow> durationInTraffic nr = duration nr)
           \<and> (durations_nonneg r \<longrightarrow> 0 \<le> durationInTraffic nr)"
  using assms
  by (auto simp: formatRouteResponse_def durations_nonneg_def split: option.splits)

theorem format_duration_in_traffic_witness:
  "raw_legs (ex_raw 100000 3600 None) = [ex_leg 100000 3600 None]
   \<and> durations_nonneg (ex_raw 100000 3600 None)
   \<and> leg_duration_in_traffic (ex_leg 100000 3600 None) = None
   \<and> (\<exists>nr. formatRouteResponse (ex_raw 100000 3600 None) = Inr nr
          \<and> duration nr = 3600 \<and> durationInTraffic nr = 3600
          \<and> 0 \<le> durationInTraffic nr)
   \<and> raw_legs (ex_raw 100000 3600 (Some 4000)) = [ex_leg 100000 3600 (Some 4000)]
   \<and> (\<exists>nr. formatRouteResponse (ex_raw 100000 3600 (Some 4000)) = Inr nr
          \<and> duration nr = 3600 \<and> durationInTraffic nr = 4000)"
proof -
  have legs1: "raw_legs (ex_raw 100000 3600 None) = ex_leg 100000 3600 None # []"
    by (simp add: ex_raw_def)
  have legs2: "raw_legs (ex_raw 100000 3600 (Some 4000)) = ex_leg 100000 3600 (Some 4000) # []"
    by (simp add: ex_raw_def)
  have nonneg: "durations_nonneg (ex_raw 100000 3600 None)"
    by (simp add: durations_nonneg_def ex_raw_def ex_leg_def)
  have none: "leg_duration_in_traffic (ex_leg 100000 3600 None) = None"
    by (simp add: ex_leg_def)
  have first: "\<exists>nr. formatRouteResponse (ex_raw 100000 3600 None) = Inr nr
          \<and> duration nr = 3600 \<and> durationInTraffic nr = 3600
          \<and> 0 \<le> durationInTraffic nr"
    using format_duration_in_traffic [OF legs1] nonneg by (auto simp: ex_leg_def)
  have second: "\<exists>nr. formatRouteResponse (ex_raw 100000 3600 (Some 4000)) = Inr nr
          \<and> duration nr = 3600 \<and> durationInTraffic nr = 4000"
    using format_duration_in_traffic [OF legs2] by (auto simp: ex_leg_def)
  from legs1 legs2 nonneg none first second show ?thesis by simp
qed

subsection \<open>Cost estimator\<close>

text \<open>
  C1, at the input of the specification's example: a route of 100000 m normalized by the
  adapter, 8 L/100km, 1.50 per litre, 0.05 toll per km. The normalized route carries a
  toll record whose estimated cost is \<open>null\<close>, so \<open>calculateTripCosts\<close> takes that
  \<open>null\<close> as the toll cost: the toll is 0 and the total 12, not 5 and 17.
\<close>

theorem trip_costs_normalized_route_toll:
  "(case formatRouteResponse (ex_raw 100000 3600 None) of
      Inl msg \<Rightarrow> False
    | Inr r \<Rightarrow>
        estimatedCost (tollInfo r) = Null
        \<and> fuelCost (calculateTripCosts ex_costs (route_data_of r)
             \<lparr>fuelEfficiency = Some 8, fuelPrice = Some (3 / 2)\<rparr>) = Num 12
        \<and> tollCost (calculateTripCosts ex_costs (route_data_of r)
             \<lparr>fuelEfficiency = Some 8, fuelPrice = Some (3 / 2)\<rparr>) = Num 0
        \<and> totalCost (calculateTripCosts ex_costs (route_data_of r)
             \<lparr>fuelEfficiency = Some 8, fuelPrice = Some (3 / 2)\<rparr>) = Num 12)"
  by (simp add: formatRouteResponse_def ex_raw_def ex_leg_def ex_costs_def
      extractTollInfo_def calculateTripCosts_def route_data_of_def Let_def floor_eq_iff)

subsection \<open>Errors of the route calculation\<close>

text \<open>
  Every error of the source is an instance of the built-in \<open>Error\<close> and differs from
  another only in its message, which is what the model keeps of it.

  C3, as stated, does not hold: the error for a provider answer without routes is raised
  inside the \<open>try\<close> block, so the \<open>catch\<close> wraps it like any failure of the query, and
  it is the very error that a rejected query with the message \<open>No route found\<close> gives.
\<close>

theorem calculateRoute_error_classes_counterexample:
  "directions env_no_routes (route_query env_no_routes ex_route_params) = Inr []
   \<and> directions (env_rejected ''No route found'')
        (route_query (env_rejected ''No route found'') ex_route_params) = Inl ''No route found''
   \<and> snd (calculateRoute env_no_routes ex_route_params)
       = Inl ''Google Maps API error: No route found''
   \<and> snd (calculateRoute (env_rejected ''No route found'') ex_route_params)
       = Inl ''Google Maps API error: No route found''"
  by (simp add: env_no_routes_def env_rejected_def ex_env_def calculateRoute_def
      calculateRoute_try_def Let_def)

text \<open>
  C3, amended. \<open>calculateRoute\<close> issues one query. When the answer has no routes it
  fails with the message \<open>Google Maps API error: No route found\<close>; when the query is
  rejected it fails with \<open>Google Maps API error:\<close> followed by the message of the
  rejection; when there is a first route, the outcome is that of normalizing it, a
  failure being prefixed in the same way. A failure reaches the caller of the tool as
  the error result whose text is \<open>Error:\<close> followed by that message.
\<close>

theorem calculateRoute_errors:
  "(directions e (route_query e p) = Inr []
      \<longrightarrow> calculateRoute e p
           = ([Query (route_query e p)], Inl ''Google Maps API error: No route found''))
   \<and> (\<forall>msg. directions e (route_query e p) = Inl msg
        \<longrightarrow> calculateRoute e p
             = ([Query (route_query e p)], Inl (''Google Maps API error: '' @ msg)))
   \<and> (\<forall>r rs. directions e (route_query e p) = Inr (r # rs)
        \<longrightarrow> calculateRoute e p
             = ([Query (route_query e p)],
                case formatRouteResponse r of
                  Inl msg \<Rightarrow> Inl (''Google Maps API error: '' @ msg)
                | Inr nr \<Rightarrow> Inr nr))
   \<and> (\<forall>msg. snd (calculateRoute e (calculate_route_params a)) = Inl msg
        \<longrightarrow> snd (callTool e \<lparr>name = ''calculate_route'', arguments = Some a\<rparr>)
             = \<lparr>content = [\<lparr>item_type = ''text'', item_text = Message (''Error: '' @ msg)\<rparr>],
                isError = Some True\<rparr>)"
proof (intro conjI allI impI)
  assume "directions e (route_query e p) = Inr []"
  then show "calculateRoute e p
           = ([Query (route_query e p)], Inl ''Google Maps API error: No route found'')"
    by (simp add: calculateRoute_def calculateRoute_try_def Let_def)
next
  fix msg assume "directions e (route_query e p) = Inl msg"
  then show "calculateRoute e p
             = ([Query (route_query e p)], Inl (''Google Maps API error: '' @ msg))"
    by (simp add: calculateRoute_def calculateRoute_try_def Let_def)
next
  fix r rs assume "directions e (route_query e p) = Inr (r # rs)"
  then show "calculateRoute e p
             = ([Query (route_query e p)],
                case formatRouteResponse r of
                  Inl msg \<Rightarrow> Inl (''Google Maps API error: '' @ msg)
                | Inr nr \<Rightarrow> Inr nr)"
    by (simp add: calculateRoute_def calculateRoute_try_def Let_def)
next
  fix msg assume f: "snd (calculateRoute e (calculate_route_params a)) = Inl msg"
  obtain evs r where c: "calculateRoute e (calculate_route_params a) = (evs, r)"
    by (cases "calculateRoute e (calculate_route_params a)")
  with f have r: "r = Inl msg" by simp
  have "handleCalculateRoute e (Some a) = (evs, Inl msg)"
    using c r by (simp add: handleCalculateRoute_def calculate_route_params_def Let_def)
  then show "snd (callTool e \<lparr>name = ''calculate_route'', arguments = Some a\<rparr>)
             = \<lparr>content = [\<lparr>item_type = ''text'', item_text = Message (''Error: '' @ msg)\<rparr>],
                isError = Some True\<rparr>"
    by (simp add: callTool_def dispatch_def error_result_def)
qed

theorem calculateRoute_errors_witness:
  "directions env_no_routes (route_query env_no_routes ex_route_params) = Inr []
   \<and> calculateRoute env_no_routes ex_route_params
       = ([Query (route_query env_no_routes ex_route_params)],
          Inl ''Google Maps API error: No route found'')
   \<and> directions (env_rejected ''Request failed with status code 403'')
        (route_query (env_rejected ''Request failed with status code 403'') ex_route_params)
       = Inl ''Request failed with status code 403''
   \<and> calculateRoute (env_rejected ''Request failed with status code 403'') ex_route_params
       = ([Query (route_query (env_rejected ''Request failed with status code 403'')
                     ex_route_params)],
          Inl ''Google Maps API error: Request failed with status code 403'')
   \<and> snd (calculateRoute env_no_routes (calculate_route_params ex_route_args))
       = Inl ''Google Maps API error: No route found''
   \<and> snd (callTool env_no_routes \<lparr>name = ''calculate_route'', arguments = Some ex_route_args\<rparr>)
       = \<lparr>content = [\<lparr>item_type = ''text'',
                       item_text = Message ''Error: Google Maps API error: No route found''\<rparr>],
          isError = Some True\<rparr>"
proof -
  have zero: "directions env_no_routes (route_query env_no_routes ex_route_params) = Inr []"
    by (simp add: env_no_routes_def ex_env_def)
  have rejected: "directions (env_rejected ''Request failed with status code 403'')
        (route_query (env_rejected ''Request failed with status code 403'') ex_route_params)
       = Inl ''Request failed with status code 403''"
    by (simp add: env_rejected_def ex_env_def)
  have zero': "directions env_no_routes
        (route_query env_no_routes (calculate_route_params ex_route_args)) = Inr []"
    by (simp add: env_no_routes_def ex_env_def)
  show ?thesis
    using zero rejected zero'
      calculateRoute_errors [of env_no_routes ex_route_params ex_route_args]
      calculateRoute_errors [of "env_rejected ''Request failed with status code 403''"
        ex_route_params ex_route_args]
      calculateRoute_errors [of env_no_routes "calculate_route_params ex_route_args" ex_route_args]
    by simp
qed

subsection \<open>Dispatcher\<close>

text \<open>
  C6. A call with a tool name that the dispatcher does not know returns the error result
  whose text is \<open>Error: Unknown tool:\<close> followed by that name. For each of the four
  tools, an error raised by its handler becomes the result of the call with the text
  \<open>Error:\<close> followed by the error's message and the error flag set, after the same
  events, and a result of the handler is returned as it is, without the flag. Every call
  returns a result, which either carries the error flag or is a serialized result object.
\<close>

theorem callTool_errors_are_results:
  "(name req \<notin> {''calculate_route'', ''compare_routes'', ''get_live_traffic'', ''estimate_costs''}
      \<longrightarrow> callTool e req =
           ([], \<lparr>content = [\<lparr>item_type = ''text'',
                            item_text = Message (''Error: Unknown tool: '' @ name req)\<rparr>],
                 isError = Some True\<rparr>))
   \<and> (\<forall>evs msg. handleCalculateRoute e args = (evs, Inl msg)
        \<longrightarrow> callTool e \<lparr>name = ''calculate_route'', arguments = args\<rparr> =
             (evs, \<lparr>content = [\<lparr>item_type = ''text'', item_text = Message (''Error: '' @ msg)\<rparr>],
                    isError = Some True\<rparr>))
   \<and> (\<forall>evs res. handleCalculateRoute e args = (evs, Inr res)
        \<longrightarrow> callTool e \<lparr>name = ''calculate_route'', arguments = args\<rparr> = (evs, res)
            \<and> isError res = None)
   \<and> (\<forall>evs msg. handleCompareRoutes e args = (evs, Inl msg)
        \<longrightarrow> callTool e \<lparr>name = ''compare_routes'', arguments = args\<rparr> =
             (evs, \<lparr>content = [\<lparr>item_type = ''text'', item_text = Message (''Error: '' @ msg)\<rparr>],
                    isError = Some True\<rparr>))
   \<and> (\<forall>evs res. handleCompareRoutes e args = (evs, Inr res)
        \<longrightarrow> callTool e \<lparr>name = ''compare_routes'', arguments = args\<rparr> = (evs, res)
            \<and> isError res = None)
   \<and> (\<forall>evs msg. handleGetLiveTraffic e args = (evs, Inl msg)
        \<longrightarrow> callTool e \<lparr>name = ''get_live_traffic'', arguments = args\<rparr> =
             (evs, \<lparr>content = [\<lparr>item_type = ''text'', item_text = Message (''Error: '' @ msg)\<rparr>],
                    isError = Some True\<rparr>))
   \<and> (\<forall>evs res. handleGetLiveTraffic e args = (evs, Inr res)
        \<longrightarrow> callTool e \<lparr>name = ''get_live_traffic'', arguments = args\<rparr> = (evs, res)
            \<and> isError res = None)
   \<and> (\<forall>evs msg. handleEstimateCosts e args = (evs, Inl msg)
        \<longrightarrow> callTool e \<lparr>name = ''estimate_costs'', arguments = args\<rparr> =
             (evs, \<lparr>content = [\<lparr>item_type = ''text'', item_text = Message (''Error: '' @ msg)\<rparr>],
                    isError = Some True\<rparr>))
   \<and> (\<forall>evs res. handleEstimateCosts e args = (evs, Inr res)
        \<longrightarrow> callTool e \<lparr>name = ''estimate_costs'', arguments = args\<rparr> = (evs, res)
            \<and> isError res = None)
   \<and> (\<exists>evs res. callTool e req = (evs, res)
        \<and> (isError res = Some True \<or> (\<exists>obj. res = text_result obj)))"
proof -
  have unknown: "name req \<notin> {''calculate_route'', ''compare_routes'', ''get_live_traffic'',
        ''estimate_costs''}
      \<longrightarrow> callTool e req =
           ([], \<lparr>content = [\<lparr>item_type = ''text'',
                            item_text = Message (''Error: Unknown tool: '' @ name req)\<rparr>],
                 isError = Some True\<rparr>)"
    by (simp add: callTool_def dispatch_def error_result_def)
  have err0: "\<forall>evs msg. handleCalculateRoute e args = (evs, Inl msg)
        \<longrightarrow> callTool e \<lparr>name = ''calculate_route'', arguments = args\<rparr> =
             (evs, \<lparr>content = [\<lparr>item_type = ''text'', item_text = Message (''Error: '' @ msg)\<rparr>],
                    isError = Some True\<rparr>)"
    by (simp add: callTool_def dispatch_def error_result_def)
  have ok0: "\<forall>evs res. handleCalculateRoute e args = (evs, Inr res)
        \<longrightarrow> callTool e \<lparr>name = ''calculate_route'', arguments = args\<rparr> = (evs, res)
            \<and> isError res = None"
  proof (intro allI impI)
    fix evs res assume h: "handleCalculateRoute e args = (evs, Inr res)"
    then obtain obj where "res = text_result obj" using handler_results by blast
    then have "isError res = None" by (simp add: text_result_def)
    moreover have "callTool e \<lparr>name = ''calculate_route'', arguments = args\<rparr> = (evs, res)"
      using h by (simp add: callTool_def dispatch_def)
    ultimately show "callTool e \<lparr>name = ''calculate_route'', arguments = args\<rparr> = (evs, res)
            \<and> isError res = None" by simp
  qed
  have err1: "\<forall>evs msg. handleCompareRoutes e args = (evs, Inl msg)
        \<longrightarrow> callTool e \<lparr>name = ''compare_routes'', arguments = args\<rparr> =
             (evs, \<lparr>content = [\<lparr>item_type = ''text'', item_text = Message (''Error: '' @ msg)\<rparr>],
                    isError = Some True\<rparr>)"
    by (simp add: callTool_def dispatch_def error_result_def)
  have ok1: "\<forall>evs res. handleCompareRoutes e args = (evs, Inr res)
        \<longrightarrow> callTool e \<lparr>name = ''compare_routes'', arguments = args\<rparr> = (evs, res)
            \<and> isError res = None"
  proof (intro allI impI)
    fix evs res assume h: "handleCompareRoutes e args = (evs, Inr res)"
    then obtain obj where "res = text_result obj" using handler_results by blast
    then have "isError res = None" by (simp add: text_result_def)
    moreover have "callTool e \<lparr>name = ''compare_routes'', arguments = args\<rparr> = (evs, res)"
      using h by (simp add: callTool_def dispatch_def)
    ultimately show "callTool e \<lparr>name = ''compare_routes'', arguments = args\<rparr> = (evs, res)
            \<and> isError res = None" by simp
  qed
  have err2: "\<forall>evs msg. handleGetLiveTraffic e args = (evs, Inl msg)
        \<longrightarrow> callTool e \<lparr>name = ''get_live_traffic'', arguments = args\<rparr> =
             (evs, \<lparr>content = [\<lparr>item_type = ''text'', item_text = Message (''Error: '' @ msg)\<rparr>],
                    isError = Some True\<rparr>)"
    by (simp add: callTool_def dispatch_def error_result_def)
  have ok2: "\<forall>evs res. handleGetLiveTraffic e args = (evs, Inr res)
        \<longrightarrow> callTool e \<lparr>name = ''get_live_traffic'', arguments = args\<rparr> = (evs, res)
            \<and> isError res = None"
  proof (intro allI impI)
    fix evs res assume h: "handleGetLiveTraffic e args = (evs, Inr res)"
    then obtain obj where "res = text_result obj" using handler_results by blast
    then have "isError res = None" by (simp add: text_result_def)
    moreover have "callTool e \<lparr>name = ''get_live_traffic'', arguments = args\<rparr> = (evs, res)"
      using h by (simp add: callTool_def dispatch_def)
    ultimately show "callTool e \<lparr>name = ''get_live_traffic'', arguments = args\<rparr> = (evs, res)
            \<and> isError res = None" by simp
  qed
  have err3: "\<forall>evs msg. handleEstimateCosts e args = (evs, Inl msg)
        \<longrightarrow> callTool e \<lparr>name = ''estimate_costs'', arguments = args\<rparr> =
             (evs, \<lparr>content = [\<lparr>item_type = ''text'', item_text = Message (''Error: '' @ msg)\<rparr>],
                    isError = Some True\<rparr>)"
    by (simp add: callTool_def dispatch_def error_result_def)
  have ok3: "\<forall>evs res. handleEstimateCosts e args = (evs, Inr res)
        \<longrightarrow> callTool e \<lparr>name = ''estimate_costs'', arguments = args\<rparr> = (evs, res)
            \<and> isError res = None"
  proof (intro allI impI)
    fix evs res assume h: "handleEstimateCosts e args = (evs, Inr res)"
    then obtain obj where "res = text_result obj" using handler_results by blast
    then have "isError res = None" by (simp add: text_result_def)
    moreover have "callTool e \<lparr>name = ''estimate_costs'', arguments = args\<rparr> = (evs, res)"
      using h by (simp add: callTool_def dispatch_def)
    ultimately show "callTool e \<lparr>name = ''estimate_costs'', arguments = args\<rparr> = (evs, res)
            \<and> isError res = None" by simp
  qed
  have total: "\<exists>evs res. callTool e req = (evs, res)
        \<and> (isError res = Some True \<or> (\<exists>obj. res = text_result obj))"
  proof -
    obtain evs r where d: "dispatch e req = (evs, r)" by (cases "dispatch e req")
    show ?thesis
    proof (cases r)
      case (Inl msg)
      then have "callTool e req = (evs, error_result msg)" using d by (simp add: callTool_def)
      then show ?thesis by (auto simp: error_result_def)
    next
      case (Inr res)
      then have "callTool e req = (evs, res)" using d by (simp add: callTool_def)
      moreover obtain obj where "res = text_result obj" using d Inr dispatch_results by blast
      ultimately show ?thesis by auto
    qed
  qed
  from unknown err0 ok0 err1 ok1 err2 ok2 err3 ok3 total show ?thesis
    by (intro conjI)
qed

theorem callTool_errors_are_results_witness:
  "name \<lparr>name = ''plan_trip'', arguments = None\<rparr>
      \<notin> {''calculate_route'', ''compare_routes'', ''get_live_traffic'', ''estimate_costs''}
   \<and> callTool env_no_routes \<lparr>name = ''plan_trip'', arguments = None\<rparr>
       = ([], \<lparr>content = [\<lparr>item_type = ''text'',
                            item_text = Message ''Error: Unknown tool: plan_trip''\<rparr>],
               isError = Some True\<rparr>)
   \<and> snd (handleCalculateRoute env_no_routes (Some ex_route_args))
       = Inl ''Google Maps API error: No route found''
   \<and> snd (callTool env_no_routes \<lparr>name = ''calculate_route'', arguments = Some ex_route_args\<rparr>)
       = \<lparr>content = [\<lparr>item_type = ''text'',
                       item_text = Message ''Error: Google Maps API error: No route found''\<rparr>],
          isError = Some True\<rparr>
   \<and> snd (handleCompareRoutes (ex_env ex_provider) (Some ex_compare_args))
       = Inl ''Google Maps API error: OVER_QUERY_LIMIT''
   \<and> snd (callTool (ex_env ex_provider)
            \<lparr>name = ''compare_routes'', arguments = Some ex_compare_args\<rparr>)
       = \<lparr>content = [\<lparr>item_type = ''text'',
                       item_text = Message ''Error: Google Maps API error: OVER_QUERY_LIMIT''\<rparr>],
          isError = Some True\<rparr>
   \<and> snd (handleGetLiveTraffic (env_rejected ''Request failed with status code 403'')
            (Some ex_route_args))
       = Inl ''Traffic info error: Request failed with status code 403''
   \<and> snd (callTool (env_rejected ''Request failed with status code 403'')
            \<lparr>name = ''get_live_traffic'', arguments = Some ex_route_args\<rparr>)
       = \<lparr>content = [\<lparr>item_type = ''text'',
                       item_text =
                         Message ''Error: Traffic info error: Request failed with status code 403''\<rparr>],
          isError = Some True\<rparr>
   \<and> snd (handleEstimateCosts env_no_routes (Some ex_route_args))
       = Inl ''Google Maps API error: No route found''
   \<and> snd (callTool env_no_routes \<lparr>name = ''estimate_costs'', arguments = Some ex_route_args\<rparr>)
       = \<lparr>content = [\<lparr>item_type = ''text'',
                       item_text = Message ''Error: Google Maps API error: No route found''\<rparr>],
          isError = Some True\<rparr>"
proof -
  let ?m = "''Request failed with status code 403''"
  have h0: "handleCalculateRoute env_no_routes (Some ex_route_args)
      = (fst (handleCalculateRoute env_no_routes (Some ex_route_args)),
         Inl ''Google Maps API error: No route found'')"
    by (simp add: handleCalculateRoute_def calculateRoute_def calculateRoute_try_def
        env_no_routes_def ex_env_def Let_def)
  have h1: "handleCompareRoutes (ex_env ex_provider) (Some ex_compare_args)
      = (fst (handleCompareRoutes (ex_env ex_provider) (Some ex_compare_args)),
         Inl ''Google Maps API error: OVER_QUERY_LIMIT'')"
    by (simp add: handleCompareRoutes_def compare_params_def calculateRoute_def
        calculateRoute_try_def route_query_def ex_compare_args_def no_args_def no_options_def
        buildAvoidString_def ex_env_def ex_provider_def formatRouteResponse_def ex_raw_def
        Let_def)
  have h2: "handleGetLiveTraffic (env_rejected ?m) (Some ex_route_args)
      = (fst (handleGetLiveTraffic (env_rejected ?m) (Some ex_route_args)),
         Inl ''Traffic info error: Request failed with status code 403'')"
    by (simp add: handleGetLiveTraffic_def getTrafficInfo_def getTrafficInfo_try_def
        env_rejected_def ex_env_def Let_def)
  have h3: "handleEstimateCosts env_no_routes (Some ex_route_args)
      = (fst (handleEstimateCosts env_no_routes (Some ex_route_args)),
         Inl ''Google Maps API error: No route found'')"
    by (simp add: handleEstimateCosts_def estimate_routeData_def calculateRoute_def
        calculateRoute_try_def ex_route_args_def no_args_def env_no_routes_def ex_env_def
        Let_def)
  have n: "name \<lparr>name = ''plan_trip'', arguments = None\<rparr>
      \<notin> {''calculate_route'', ''compare_routes'', ''get_live_traffic'', ''estimate_costs''}"
    by simp
  have u: "callTool env_no_routes \<lparr>name = ''plan_trip'', arguments = None\<rparr>
       = ([], \<lparr>content = [\<lparr>item_type = ''text'',
                            item_text = Message ''Error: Unknown tool: plan_trip''\<rparr>],
               isError = Some True\<rparr>)"
    using callTool_errors_are_results
        [of "\<lparr>name = ''plan_trip'', arguments = None\<rparr>" env_no_routes None,
         THEN conjunct1, rule_format, OF n]
    by simp
  note c0 = callTool_errors_are_results
      [of "\<lparr>name = ''plan_trip'', arguments = None\<rparr>" env_no_routes "Some ex_route_args",
       THEN conjunct2, THEN conjunct1, rule_format, OF h0]
  note c1 = callTool_errors_are_results
      [of "\<lparr>name = ''plan_trip'', arguments = None\<rparr>" "ex_env ex_provider"
          "Some ex_compare_args",
       THEN conjunct2, THEN conjunct2, THEN conjunct2, THEN conjunct1, rule_format, OF h1]
  note c2 = callTool_errors_are_results
      [of "\<lparr>name = ''plan_trip'', arguments = None\<rparr>" "env_rejected ?m"
          "Some ex_route_args",
       THEN conjunct2, THEN conjunct2, THEN conjunct2, THEN conjunct2, THEN conjunct2,
       THEN conjunct1, rule_format, OF h2]
  note c3 = callTool_errors_are_results
      [of "\<lparr>name = ''plan_trip'', arguments = None\<rparr>" env_no_routes "Some ex_route_args",
       THEN conjunct2, THEN conjunct2, THEN conjunct2, THEN conjunct2, THEN conjunct2,
       THEN conjunct2, THEN conjunct2, THEN conjunct1, rule_format, OF h3]
  have s0: "snd (handleCalculateRoute env_no_routes (Some ex_route_args))
       = Inl ''Google Maps API error: No route found''"
    by (subst h0) simp
  have s1: "snd (handleCompareRoutes (ex_env ex_provider) (Some ex_compare_args))
       = Inl ''Google Maps API error: OVER_QUERY_LIMIT''"
    by (subst h1) simp
  have s2: "snd (handleGetLiveTraffic (env_rejected ?m) (Some ex_route_args))
       = Inl ''Traffic info error: Request failed with status code 403''"
    by (subst h2) simp
  have s3: "snd (handleEstimateCosts env_no_routes (Some ex_route_args))
       = Inl ''Google Maps API error: No route found''"
    by (subst h3) simp
  show ?thesis
    by (simp only: n u s0 s1 s2 s3 c0 c1 c2 c3 snd_conv append_Cons append_Nil simp_thms)
qed

text \<open>
  C7, as stated, does not hold: a call of \<open>estimate_costs\<close> with no arguments object
  supplies neither a route nor an origin and a destination, and it fails on the
  destructuring of the absent object, not with the missing route data.
\<close>

theorem estimate_costs_no_arguments_counterexample:
  "callTool env_no_routes \<lparr>name = ''estimate_costs'', arguments = None\<rparr> =
     ([], \<lparr>content = [\<lparr>item_type = ''text'',
              item_text = Message (''Error: '' @ undefined_destructure ''route'' ''args'')\<rparr>],
           isError = Some True\<rparr>)
   \<and> ''Error: '' @ undefined_destructure ''route'' ''args''
       \<noteq> ''Error: No route data available for cost estimation''"
  by (simp add: callTool_def dispatch_def handleEstimateCosts_def error_result_def
      undefined_destructure_def)

text \<open>
  C7, amended. \<open>estimate_costs\<close> with an arguments object that has no route and not
  both an origin and a destination issues no query and returns the error result of the
  missing route data; with no arguments object it issues no query and returns the error
  result of the failed destructuring. Both results carry the error flag.
\<close>

theorem estimate_costs_without_route:
  assumes "a_route a = None"
    and "\<not> (truthy_str (a_origin a) \<and> truthy_str (a_destination a))"
  shows "callTool e \<lparr>name = ''estimate_costs'', arguments = Some a\<rparr> =
           ([], \<lparr>content = [\<lparr>item_type = ''text'',
                   item_text = Message ''Error: No route data available for cost estimation''\<rparr>],
                 isError = Some True\<rparr>)
       \<and> callTool e \<lparr>name = ''estimate_costs'', arguments = None\<rparr> =
           ([], \<lparr>content = [\<lparr>item_type = ''text'',
                   item_text = Message (''Error: '' @ undefined_destructure ''route'' ''args'')\<rparr>],
                 isError = Some True\<rparr>)"
proof -
  have "estimate_routeData e a = ([], Inr None)"
    using assms by (auto simp: estimate_routeData_def)
  then show ?thesis
    by (simp add: callTool_def dispatch_def handleEstimateCosts_def error_result_def)
qed

theorem estimate_costs_without_route_witness:
  "a_route (no_args\<lparr>a_origin := Some ''Boston''\<rparr>) = None
   \<and> \<not> (truthy_str (a_origin (no_args\<lparr>a_origin := Some ''Boston''\<rparr>))
          \<and> truthy_str (a_destination (no_args\<lparr>a_origin := Some ''Boston''\<rparr>)))
   \<and> callTool (ex_env (\<lambda>q. Inr [ex_raw 100000 3600 None]))
        \<lparr>name = ''estimate_costs'', arguments = Some (no_args\<lparr>a_origin := Some ''Boston''\<rparr>)\<rparr> =
           ([], \<lparr>content = [\<lparr>item_type = ''text'',
                   item_text = Message ''Error: No route data available for cost estimation''\<rparr>],
                 isError = Some True\<rparr>)
   \<and> callTool (ex_env (\<lambda>q. Inr [ex_raw 100000 3600 None]))
        \<lparr>name = ''estimate_costs'', arguments = None\<rparr> =
           ([], \<lparr>content = [\<lparr>item_type = ''text'',
                   item_text = Message (''Error: '' @ undefined_destructure ''route'' ''args'')\<rparr>],
                 isError = Some True\<rparr>)"
  using estimate_costs_without_route
    [of "no_args\<lparr>a_origin := Some ''Boston''\<rparr>" "ex_env (\<lambda>q. Inr [ex_raw 100000 3600 None])"]
  by (simp add: no_args_def)

subsection \<open>Route comparison\<close>

text \<open>
  C9. The \<open>alternatives\<close> argument of \<open>compare_routes\<close> has no effect: two calls that
  differ only in it issue the same queries, which are those of \<open>compare_params\<close>, and
  return the same result; the first query has \<open>alternatives\<close> set.
\<close>

theorem compare_routes_ignores_alternatives:
  "callTool e \<lparr>name = ''compare_routes'', arguments = Some (a\<lparr>a_alternatives := x\<rparr>)\<rparr>
     = callTool e \<lparr>name = ''compare_routes'', arguments = Some (a\<lparr>a_alternatives := y\<rparr>)\<rparr>
   \<and> fst (callTool e \<lparr>name = ''compare_routes'', arguments = Some (a\<lparr>a_alternatives := x\<rparr>)\<rparr>)
     = map (\<lambda>p. Query (route_query e p)) (compare_params a)
   \<and> compare_params (a\<lparr>a_alternatives := x\<rparr>) = compare_params a
   \<and> (\<exists>p ps. compare_params a = p # ps \<and> p_alternatives (route_query e p) = Some True)"
proof -
  have same: "handleCompareRoutes e (Some (a\<lparr>a_alternatives := x\<rparr>))
                = handleCompareRoutes e (Some (a\<lparr>a_alternatives := y\<rparr>))"
    by (simp only: handleCompareRoutes_alternatives)
  have calls: "callTool e \<lparr>name = ''compare_routes'', arguments = Some (a\<lparr>a_alternatives := x\<rparr>)\<rparr>
     = callTool e \<lparr>name = ''compare_routes'', arguments = Some (a\<lparr>a_alternatives := y\<rparr>)\<rparr>"
    by (simp only: callTool_compare same)
  have evs: "fst (callTool e \<lparr>name = ''compare_routes'', arguments = Some (a\<lparr>a_alternatives := x\<rparr>)\<rparr>)
     = map (\<lambda>p. Query (route_query e p)) (compare_params a)"
    by (simp only: callTool_compare fst_conv handleCompareRoutes_alternatives
        handleCompareRoutes_events)
  have first: "\<exists>p ps. compare_params a = p # ps \<and> p_alternatives (route_query e p) = Some True"
    by (simp add: compare_params_def route_query_def Let_def)
  from calls evs first show ?thesis
    by (simp only: compare_params_alternatives simp_thms)
qed

text \<open>
  C5. A successful \<open>compare_routes\<close> over \<open>N\<close> comparison options lists \<open>N + 1\<close>
  routes, the results of the \<open>N + 1\<close> route calculations in order, with the ids
  \<open>0, \<dots>, N\<close>, the first labelled default and the others with their options. The
  fastest route is the first one of least duration in traffic, the shortest the first one
  of least distance, and the recommendation is the fastest route with the fixed reason.
\<close>

theorem compare_routes_ranking:
  assumes "handleCompareRoutes e (Some a) = (evs, Inr res)"
  shows "\<exists>routes cmp kf ks.
      map snd (map (calculateRoute e) (compare_params a)) = map Inr routes
    \<and> res = text_result (CompareResult
              \<lparr>cmp_success = True, cmp_comparison = cmp, cmp_timestamp = timestamp e,
               routesCompared = length routes\<rparr>)
    \<and> length (cmp_routes cmp) = length (compare_options a) + 1
    \<and> map c_id (cmp_routes cmp) = [0 ..< length (compare_options a) + 1]
    \<and> map c_options (cmp_routes cmp) = Default # map Opt (compare_options a)
    \<and> map c_durationInTraffic (cmp_routes cmp) = map durationInTraffic routes
    \<and> map c_distance (cmp_routes cmp) = map distance routes
    \<and> is_first_min durationInTraffic routes kf \<and> fastestRoute cmp = routes ! kf
    \<and> is_first_min distance routes ks \<and> shortestRoute cmp = routes ! ks
    \<and> cmp_recommendation cmp =
         \<lparr>recommended = routes ! kf,
          reason = ''Fastest travel time with current traffic conditions''\<rparr>"
proof -
  let ?ps = "map (calculateRoute e) (compare_params a)"
  let ?os = "compare_options a"
  obtain evs' r where pa: "Promise_all ?ps = (evs', r)" by (cases "Promise_all ?ps")
  from assms pa obtain routes where r: "r = Inr routes" and body: "compare_body e a routes = Inr res"
    by (cases r) (auto simp: handleCompareRoutes_def)
  have "snd (Promise_all ?ps) = Inr routes" using pa r by simp
  then have results: "map snd ?ps = map Inr routes" by (simp only: Promise_all_Inr)
  have "length routes = length ?ps" using pa r Promise_all_length by blast
  then have len: "length routes = Suc (length ?os)"
    by (simp add: compare_params_def compare_options_def Let_def)
  then obtain x xs where rx: "routes = x # xs" by (cases routes) auto
  obtain kf where kf: "is_first_min durationInTraffic (x # xs) kf"
    "foldl (pick_less durationInTraffic) x xs = (x # xs) ! kf"
    using foldl_first_min [of durationInTraffic x xs] by blast
  obtain ks where ks: "is_first_min distance (x # xs) ks"
    "foldl (pick_less distance) x xs = (x # xs) ! ks"
    using foldl_first_min [of distance x xs] by blast
  let ?cmp = "\<lparr>cmp_routes = map (compared ?os) (zip [0 ..< length routes] routes),
               cmp_recommendation =
                 \<lparr>recommended = routes ! kf,
                  reason = ''Fastest travel time with current traffic conditions''\<rparr>,
               fastestRoute = routes ! kf,
               shortestRoute = routes ! ks\<rparr>"
  have res: "res = text_result (CompareResult
              \<lparr>cmp_success = True, cmp_comparison = ?cmp, cmp_timestamp = timestamp e,
               routesCompared = length routes\<rparr>)"
    using body kf(2) ks(2) unfolding rx
    by (simp add: compare_body_def findBestRoute_def reduce_callback compare_options_def)
  have ids: "map c_id (cmp_routes ?cmp) = [0 ..< length ?os + 1]"
    using compared_ids [of routes "length routes" ?os] len by simp
  have labels: "map c_options (cmp_routes ?cmp) = Default # map Opt ?os"
    using compared_labels [of routes ?os] len by simp
  have durs: "map c_durationInTraffic (cmp_routes ?cmp) = map durationInTraffic routes"
    using compared_durations [of routes "length routes" ?os] by simp
  have dists: "map c_distance (cmp_routes ?cmp) = map distance routes"
    using compared_distances [of routes "length routes" ?os] by simp
  have n: "length (cmp_routes ?cmp) = length ?os + 1"
    using len by simp
  have fast: "is_first_min durationInTraffic routes kf" using kf(1) rx by simp
  have short: "is_first_min distance routes ks" using ks(1) rx by simp
  show ?thesis
    apply (rule exI [of _ routes])
    apply (rule exI [of _ ?cmp])
    apply (rule exI [of _ kf])
    apply (rule exI [of _ ks])
    using results res n ids labels durs dists fast short
    apply (simp only: comparison.simps simp_thms)
    done
qed

theorem compare_routes_ranking_witness:
  "\<exists>evs res routes cmp.
      handleCompareRoutes (ex_env ex_ranking_provider) (Some ex_ranking_args) = (evs, Inr res)
    \<and> res = text_result (CompareResult
              \<lparr>cmp_success = True, cmp_comparison = cmp,
               cmp_timestamp = timestamp (ex_env ex_ranking_provider),
               routesCompared = length routes\<rparr>)
    \<and> map c_id (cmp_routes cmp) = [0, 1, 2]
    \<and> map c_options (cmp_routes cmp)
        = [Default, Opt (no_options\<lparr>avoidTolls := Some True\<rparr>),
           Opt (no_options\<lparr>avoidHighways := Some True\<rparr>)]
    \<and> map durationInTraffic routes = [4000, 3900, 3900]
    \<and> map distance routes = [100000, 120000, 90000]
    \<and> is_first_min durationInTraffic routes 1 \<and> fastestRoute cmp = routes ! 1
    \<and> is_first_min distance routes 2 \<and> shortestRoute cmp = routes ! 2
    \<and> recommended (cmp_recommendation cmp) = routes ! 1"
proof -
  let ?e = "ex_env ex_ranking_provider"
  have "\<not> (\<exists>p \<in> set (compare_params ex_ranking_args). isl (snd (calculateRoute ?e p)))"
  proof -
    have "\<not> (\<exists>c \<in> set (map (calculateRoute ?e) (compare_params ex_ranking_args)). isl (snd c))"
      unfolding ex_ranking_calls
      by (simp add: formatRouteResponse_def ex_raw_def)
    then show ?thesis by simp
  qed
  then have "\<not> isl (snd (handleCompareRoutes ?e (Some ex_ranking_args)))"
    by (simp only: handleCompareRoutes_fails simp_thms)
  then obtain evs res where h: "handleCompareRoutes ?e (Some ex_ranking_args) = (evs, Inr res)"
    by (cases "handleCompareRoutes ?e (Some ex_ranking_args)")
       (metis isl_def prod.sel(2) sum.exhaust)
  have "\<exists>routes cmp kf ks.
      map snd (map (calculateRoute ?e) (compare_params ex_ranking_args)) = map Inr routes
    \<and> res = text_result (CompareResult
              \<lparr>cmp_success = True, cmp_comparison = cmp, cmp_timestamp = timestamp ?e,
               routesCompared = length routes\<rparr>)
    \<and> length (cmp_routes cmp) = length (compare_options ex_ranking_args) + 1
    \<and> map c_id (cmp_routes cmp) = [0 ..< length (compare_options ex_ranking_args) + 1]
    \<and> map c_options (cmp_routes cmp) = Default # map Opt (compare_options ex_ranking_args)
    \<and> map c_durationInTraffic (cmp_routes cmp) = map durationInTraffic routes
    \<and> map c_distance (cmp_routes cmp) = map distance routes
    \<and> is_first_min durationInTraffic routes kf \<and> fastestRoute cmp = routes ! kf
    \<and> is_first_min distance routes ks \<and> shortestRoute cmp = routes ! ks
    \<and> cmp_recommendation cmp =
         \<lparr>recommended = routes ! kf,
          reason = ''Fastest travel time with current traffic conditions''\<rparr>"
    by (rule compare_routes_ranking [OF h])
  then show ?thesis
  proof (elim exE conjE)
  fix routes cmp kf ks
  assume c1: "map snd (map (calculateRoute ?e) (compare_params ex_ranking_args)) = map Inr routes"
    and c2: "res = text_result (CompareResult
              \<lparr>cmp_success = True, cmp_comparison = cmp, cmp_timestamp = timestamp ?e,
               routesCompared = length routes\<rparr>)"
    and c3: "map c_id (cmp_routes cmp) = [0 ..< length (compare_options ex_ranking_args) + 1]"
    and c4: "map c_options (cmp_routes cmp) = Default # map Opt (compare_options ex_ranking_args)"
    and c5: "is_first_min durationInTraffic routes kf"
    and c6: "fastestRoute cmp = routes ! kf"
    and c7: "is_first_min distance routes ks"
    and c8: "shortestRoute cmp = routes ! ks"
    and c9: "cmp_recommendation cmp =
         \<lparr>recommended = routes ! kf,
          reason = ''Fastest travel time with current traffic conditions''\<rparr>"
  have vals: "map durationInTraffic routes = [4000, 3900, 3900]"
    "map distance routes = [100000, 120000, 90000]"
    using ex_ranking_routes [OF c1] by simp_all
  have kf: "kf = 1" using vals(1) c5 by (rule first_min_durations)
  have ks: "ks = 2" using vals(2) c7 by (rule first_min_distances)
  have opts: "compare_options ex_ranking_args
      = [no_options\<lparr>avoidTolls := Some True\<rparr>, no_options\<lparr>avoidHighways := Some True\<rparr>]"
    by (simp add: compare_options_def ex_ranking_args_def no_args_def)
  have ids: "map c_id (cmp_routes cmp) = [0, 1, 2]"
    using c3 unfolding opts by (simp add: upt_rec)
  have labels: "map c_options (cmp_routes cmp)
        = [Default, Opt (no_options\<lparr>avoidTolls := Some True\<rparr>),
           Opt (no_options\<lparr>avoidHighways := Some True\<rparr>)]"
    using c4 unfolding opts by simp
  have rec: "recommended (cmp_recommendation cmp) = routes ! 1"
    using c9 kf by simp
  show ?thesis
    apply (rule exI [of _ evs])
    apply (rule exI [of _ res])
    apply (rule exI [of _ routes])
    apply (rule exI [of _ cmp])
    apply (intro conjI)
    apply (rule h c2 ids labels vals c5 [unfolded kf] c6 [unfolded kf] c7 [unfolded ks]
        c8 [unfolded ks] rec)+
    done
  qed
qed

subsection \<open>Cost estimation handler\<close>

text \<open>
  C10. \<open>estimate_costs\<close> with a route argument issues no query, whatever origin and
  destination it is given: the costs are those of \<open>calculateTripCosts\<close> on the supplied
  route, and the result does not depend on the directions service.
\<close>

theorem estimate_costs_route_precedence:
  assumes "a_route a = Some rd"
  shows "callTool e \<lparr>name = ''estimate_costs'', arguments = Some a\<rparr> =
           ([], text_result (CostsResult
              \<lparr>est_success = True,
               fuel = fuelCost (calculateTripCosts (costs e) rd
                 (case a_vehicleOptions a of None \<Rightarrow> no_vehicle_options | Some v \<Rightarrow> v)),
               tolls = tollCost (calculateTripCosts (costs e) rd
                 (case a_vehicleOptions a of None \<Rightarrow> no_vehicle_options | Some v \<Rightarrow> v)),
               total = totalCost (calculateTripCosts (costs e) rd
                 (case a_vehicleOptions a of None \<Rightarrow> no_vehicle_options | Some v \<Rightarrow> v)),
               est_breakdown = costs_breakdown (calculateTripCosts (costs e) rd
                 (case a_vehicleOptions a of None \<Rightarrow> no_vehicle_options | Some v \<Rightarrow> v)),
               est_assumptions = costs_assumptions (calculateTripCosts (costs e) rd
                 (case a_vehicleOptions a of None \<Rightarrow> no_vehicle_options | Some v \<Rightarrow> v)),
               est_route = rd,
               est_timestamp = timestamp e,
               currency = ''USD''\<rparr>))
       \<and> callTool (e\<lparr>directions := d\<rparr>) \<lparr>name = ''estimate_costs'', arguments = Some a\<rparr>
           = callTool e \<lparr>name = ''estimate_costs'', arguments = Some a\<rparr>"
proof -
  have "\<And>e'. estimate_routeData e' a = ([], Inr (Some rd))"
    using assms by (simp add: estimate_routeData_def)
  then show ?thesis
    by (simp add: callTool_def dispatch_def handleEstimateCosts_def Let_def)
qed

theorem estimate_costs_route_precedence_witness:
  "a_route ex_estimate_args = Some ex_route_data
   \<and> truthy_str (a_origin ex_estimate_args) \<and> truthy_str (a_destination ex_estimate_args)
   \<and> fst (callTool (ex_env (\<lambda>q. Inr [ex_raw 50000 1800 None]))
        \<lparr>name = ''estimate_costs'', arguments = Some ex_estimate_args\<rparr>) = []
   \<and> (\<exists>r. snd (callTool (ex_env (\<lambda>q. Inr [ex_raw 50000 1800 None]))
        \<lparr>name = ''estimate_costs'', arguments = Some ex_estimate_args\<rparr>)
          = text_result (CostsResult r)
        \<and> fuel r = Num 12 \<and> tolls r = Num (7 / 2) \<and> total r = Num (31 / 2)
        \<and> est_route r = ex_route_data)"
  using estimate_costs_route_precedence
    [of ex_estimate_args ex_route_data "ex_env (\<lambda>q. Inr [ex_raw 50000 1800 None])"]
  by (simp add: ex_estimate_args_def no_args_def ex_route_data_def ex_env_def ex_costs_def
      calculateTripCosts_def no_vehicle_options_def Let_def floor_rat_divide_numeral
      text_result_def)

subsection \<open>Partial failures\<close>

text \<open>
  C2. \<open>getTrafficInfo\<close> fails exactly when its primary query fails or answers without a
  usable first route; otherwise it succeeds whatever the three sampling queries do, the
  sampled times holding an entry for exactly the offsets whose query succeeded and the
  log a warning for each of the others. \<open>handleCompareRoutes\<close> fails exactly when at
  least one of its route calculations fails.
\<close>

theorem partial_failure_asymmetry:
  "(isl (snd (getTrafficInfo e params))
      \<longleftrightarrow> \<not> primary_ok (directions e (traffic_query e params)))
   \<and> (primary_ok (directions e (traffic_query e params)) \<longrightarrow>
        (\<exists>td. snd (getTrafficInfo e params) = Inr td
           \<and> map fst (td_alternativeTimes td)
               = map offset_label
                   (filter (sample_ok e (tp_origin params) (tp_destination params)) timeOffsets)
           \<and> warned (fst (getTrafficInfo e params))
               = map warning_label
                   (filter (\<lambda>t. \<not> sample_ok e (tp_origin params) (tp_destination params) t)
                      timeOffsets)))
   \<and> (isl (snd (handleCompareRoutes e (Some a)))
        \<longleftrightarrow> (\<exists>p \<in> set (compare_params a). isl (snd (calculateRoute e p))))"
  using getTrafficInfo_fails [of e params] getTrafficInfo_samples [of e params]
    handleCompareRoutes_fails [of e a]
  by blast

theorem partial_failure_asymmetry_witness:
  "primary_ok (directions (ex_env ex_provider) (traffic_query (ex_env ex_provider) ex_traffic_params))
   \<and> (\<exists>td. snd (getTrafficInfo (ex_env ex_provider) ex_traffic_params) = Inr td
         \<and> map fst (td_alternativeTimes td) = [''+60min''])
   \<and> warned (fst (getTrafficInfo (ex_env ex_provider) ex_traffic_params))
       = [''Failed to get alternative time for +30min:'',
          ''Failed to get alternative time for +120min:'']
   \<and> isl (snd (calculateRoute (ex_env ex_provider) (compare_params ex_compare_args ! 1)))
   \<and> \<not> isl (snd (calculateRoute (ex_env ex_provider) (compare_params ex_compare_args ! 0)))
   \<and> isl (snd (handleCompareRoutes (ex_env ex_provider) (Some ex_compare_args)))"
proof -
  have primary: "primary_ok
      (directions (ex_env ex_provider) (traffic_query (ex_env ex_provider) ex_traffic_params))"
    by (simp add: primary_ok_def ex_env_def ex_provider_def traffic_query_def
        ex_traffic_params_def ex_raw_def)
  have second: "isl (snd (calculateRoute (ex_env ex_provider) (compare_params ex_compare_args ! 1)))"
    by (simp add: calculateRoute_def calculateRoute_try_def route_query_def compare_params_def
        ex_compare_args_def no_args_def no_options_def buildAvoidString_def ex_env_def
        ex_provider_def Let_def)
  have first: "\<not> isl (snd (calculateRoute (ex_env ex_provider) (compare_params ex_compare_args ! 0)))"
    by (simp add: calculateRoute_def calculateRoute_try_def route_query_def compare_params_def
        ex_compare_args_def no_args_def no_options_def buildAvoidString_def ex_env_def
        ex_provider_def formatRouteResponse_def ex_raw_def Let_def)
  have member: "compare_params ex_compare_args ! 1 \<in> set (compare_params ex_compare_args)"
    by (simp add: compare_params_def ex_compare_args_def no_args_def Let_def)
  show ?thesis
    using partial_failure_asymmetry [of "ex_env ex_provider" ex_traffic_params ex_compare_args]
      primary first second member
    by (auto simp: ex_traffic_params_def timeOffsets_def ex_samples offset_labels
        warning_label_def)
qed

end
